theory Spec2Isabelle
  imports Complex_Main
begin

unbundle bit_operations_syntax

section \<open>The game interface the plugin reads\<close>

text \<open>
  The plugin is JavaScript running inside OpenRCT2. Its numbers are modelled as follows:
  counters that start at 0 and are only incremented are \<open>nat\<close>, tile coordinates are
  \<open>int\<close>, and the other numbers the game or the configuration supplies (happiness,
  ratios, thresholds, ticks) are \<open>real\<close>. The random source and the happiness percentage
  compute with the rounded arithmetic of JavaScript's doubles, defined in the section on
  JavaScript numbers. A read that the source guards with \<open>try\<close>/\<open>catch\<close> is an
  \<open>option\<close>: \<open>None\<close> is the branch where the read throws. Coordinates are pairs
  \<open>(x, y)\<close>.
\<close>

text \<open>\<open>network.mode\<close>: \<open>'none'\<close>, \<open>'server'\<close>, \<open>'client'\<close>, or any other value.\<close>

datatype network_mode = ModeNone | ModeServer | ModeClient | ModeOther

text \<open>A footpath, track or entrance element of a tile, with the fields the plugin reads.\<close>

record element =
  elemType :: string
  isQueue :: bool
  isBroken :: bool
  isBlockedByVehicle :: bool
  rideOf :: "nat option"

text \<open>\<open>tile.getElement(i)\<close>: it may throw, give \<open>null\<close>, or give an element.\<close>

datatype elem_query = ElemThrows | ElemNull | Elem element

text \<open>\<open>map.getTile(x, y)\<close>: it may throw, give \<open>null\<close>, or give a tile (its elements).\<close>

datatype tile_query = TileThrows | NoTile | Tile "elem_query list"

text \<open>A guest: \<open>happiness\<close> and \<open>nausea\<close> are \<open>None\<close> when the field is not a number,
  \<open>thoughts\<close> is \<open>None\<close> when the field is missing; a thought is given by its \<open>type\<close>
  string, and an entry of the list may be \<open>null\<close>.\<close>

record guest =
  happiness :: "real option"
  nausea :: "real option"
  thoughts :: "string option list option"

record ride =
  rideId :: nat
  classification :: string

record world =
  networkMode :: "network_mode option"
  ticksElapsed :: "real option"
  mapSize :: "(nat \<times> nat) option"
  getTile :: "int \<Rightarrow> int \<Rightarrow> tile_query"
  mapRides :: "ride option list option"
  allGuests :: "guest option list option"

section \<open>JavaScript numbers\<close>

text \<open>
  A JavaScript number is an IEEE 754 double: \<open>NaN\<close>, an infinity, or a finite value. The
  two zeros are not distinguished: no operation used here tells them apart.
\<close>

datatype jsnum = NaN | NegInf | PosInf | Num real

text \<open>
  Rounding to the nearest double, ties to the even significand. A double near \<open>x\<close> is
  an integer multiple of \<open>ulp x\<close>, which is \<open>2\<close> to the power \<open>e - 52\<close> for the binary exponent
  \<open>e\<close> of \<open>x\<close>, and \<open>-1022\<close> is the least exponent (below it the doubles are subnormal).
\<close>

definition binadeExp :: "real \<Rightarrow> int" where
  "binadeExp x = max \<lfloor>log 2 \<bar>x\<bar>\<rfloor> (- 1022)"

definition ulp :: "real \<Rightarrow> real" where
  "ulp x = 2 powr (of_int (binadeExp x) - 52)"

definition roundHalfEven :: "real \<Rightarrow> int" where
  "roundHalfEven m =
     (if m - of_int \<lfloor>m\<rfloor> < 1 / 2 then \<lfloor>m\<rfloor>
      else if m - of_int \<lfloor>m\<rfloor> > 1 / 2 then \<lfloor>m\<rfloor> + 1
      else if even \<lfloor>m\<rfloor> then \<lfloor>m\<rfloor> else \<lfloor>m\<rfloor> + 1)"

definition nearestDouble :: "real \<Rightarrow> real" where
  "nearestDouble x = (if x = 0 then 0 else of_int (roundHalfEven (x / ulp x)) * ulp x)"

text \<open>The number a real result becomes: rounded, and an infinity from \<open>2\<close> to the power
  1024 on.\<close>

definition toNumber :: "real \<Rightarrow> jsnum" where
  "toNumber x =
     (if 2 ^ 1024 \<le> nearestDouble x then PosInf
      else if nearestDouble x \<le> - (2 ^ 1024) then NegInf
      else Num (nearestDouble x))"

text \<open>The operators \<open>+\<close>, unary \<open>-\<close>, binary \<open>-\<close> and \<open>*\<close>.\<close>

fun js_add :: "jsnum \<Rightarrow> jsnum \<Rightarrow> jsnum" where
  "js_add NaN b = NaN"
| "js_add a NaN = NaN"
| "js_add PosInf NegInf = NaN"
| "js_add NegInf PosInf = NaN"
| "js_add PosInf b = PosInf"
| "js_add a PosInf = PosInf"
| "js_add NegInf b = NegInf"
| "js_add a NegInf = NegInf"
| "js_add (Num a) (Num b) = toNumber (a + b)"

fun js_neg :: "jsnum \<Rightarrow> jsnum" where
  "js_neg NaN = NaN"
| "js_neg NegInf = PosInf"
| "js_neg PosInf = NegInf"
| "js_neg (Num a) = Num (- a)"

definition js_sub :: "jsnum \<Rightarrow> jsnum \<Rightarrow> jsnum" where
  "js_sub a b = js_add a (js_neg b)"

text \<open>An infinity times a number: \<open>NaN\<close> for \<open>NaN\<close> and for zero, else the infinity of the
  product's sign; \<open>pos\<close> tells whether the infinity is the positive one.\<close>

fun infinityTimes :: "bool \<Rightarrow> jsnum \<Rightarrow> jsnum" where
  "infinityTimes pos NaN = NaN"
| "infinityTimes pos PosInf = (if pos then PosInf else NegInf)"
| "infinityTimes pos NegInf = (if pos then NegInf else PosInf)"
| "infinityTimes pos (Num b) =
     (if b = 0 then NaN else if (0 < b) = pos then PosInf else NegInf)"

fun js_mul :: "jsnum \<Rightarrow> jsnum \<Rightarrow> jsnum" where
  "js_mul NaN b = NaN"
| "js_mul a NaN = NaN"
| "js_mul PosInf b = infinityTimes True b"
| "js_mul NegInf b = infinityTimes False b"
| "js_mul a PosInf = infinityTimes True a"
| "js_mul a NegInf = infinityTimes False a"
| "js_mul (Num a) (Num b) = toNumber (a * b)"

fun Math_floor :: "jsnum \<Rightarrow> jsnum" where
  "Math_floor (Num a) = Num (of_int \<lfloor>a\<rfloor>)"
| "Math_floor a = a"

text \<open>
  \<open>Math.sin\<close>: the language fixes \<open>NaN\<close> for \<open>NaN\<close> and the infinities and zero for zero;
  for any other argument the result is an approximation that the engine chooses. The
  engine's choice is the parameter \<open>mathSin\<close>, whose value becomes a number.
\<close>

fun Math_sin :: "(real \<Rightarrow> real) \<Rightarrow> jsnum \<Rightarrow> jsnum" where
  "Math_sin mathSin (Num a) = (if a = 0 then Num 0 else toNumber (mathSin a))"
| "Math_sin mathSin a = NaN"

text \<open>\<open>v || 0\<close> for a number \<open>v\<close> that may be missing: \<open>0\<close> when \<open>v\<close> is missing, \<open>NaN\<close> or
  zero, else \<open>v\<close>.\<close>

fun orZero :: "jsnum option \<Rightarrow> jsnum" where
  "orZero None = Num 0"
| "orZero (Some NaN) = Num 0"
| "orZero (Some v) = v"


section \<open>Configuration\<close>

record config =
  handymanAutoHire :: bool
  handymanTargetRatio :: real
  handymanMinCount :: real
  handymanMaxCount :: real
  mechanicAutoHire :: bool
  mechanicTargetRatio :: real
  mechanicMinCount :: real
  mechanicMaxCount :: real
  securityAutoHire :: bool
  securityTargetRatio :: real
  securityMinCount :: real
  securityMaxCount :: real
  securityCrimeThreshold :: real
  entertainerAutoHire :: bool
  entertainerTargetRatio :: real
  entertainerMinCount :: real
  entertainerMaxCount :: real
  entertainerHappinessThreshold :: real
  autoHireEnabled :: bool
  handymanSweepEnabled :: bool
  handymanWaterEnabled :: bool
  handymanEmptyBinsEnabled :: bool
  handymanMowEnabled :: bool

text \<open>The values of the \<open>CONFIG\<close> object literal of the 3.0.0 source; a literal that is
  not an integer is the double nearest to it.\<close>

definition CONFIG :: config where
  "CONFIG = \<lparr> handymanAutoHire = True, handymanTargetRatio = nearestDouble 0.01,
     handymanMinCount = 2, handymanMaxCount = 50,
     mechanicAutoHire = True, mechanicTargetRatio = nearestDouble 0.15,
     mechanicMinCount = 1, mechanicMaxCount = 30,
     securityAutoHire = True, securityTargetRatio = nearestDouble 0.002,
     securityMinCount = 0, securityMaxCount = 20, securityCrimeThreshold = 3,
     entertainerAutoHire = True, entertainerTargetRatio = nearestDouble 0.001,
     entertainerMinCount = 0, entertainerMaxCount = 20,
     entertainerHappinessThreshold = 60,
     autoHireEnabled = True,
     handymanSweepEnabled = True, handymanWaterEnabled = True,
     handymanEmptyBinsEnabled = True, handymanMowEnabled = False \<rparr>"

section \<open>NetworkHelper\<close>

text \<open>\<open>getMode\<close>: \<open>try { return network.mode; } catch (e) { return 'none'; }\<close>\<close>

definition getMode :: "world \<Rightarrow> network_mode" where
  "getMode w = (case networkMode w of None \<Rightarrow> ModeNone | Some m \<Rightarrow> m)"

definition isServer :: "world \<Rightarrow> bool" where
  "isServer w = (getMode w = ModeNone \<or> getMode w = ModeServer)"

definition canModifyGameState :: "world \<Rightarrow> bool" where
  "canModifyGameState w = isServer w"

section \<open>SpatialHash\<close>

text \<open>
  The \<open>cells\<close> object maps the key \<open>floor(x/cellSize) + ',' + floor(y/cellSize)\<close> to the
  list of entries pushed under it. The key is modelled as the pair of the two floors and
  the object as an association list in insertion order.
\<close>

record 'v spatial_hash =
  cellSize :: int
  cells :: "((int \<times> int) \<times> ((int \<times> int) \<times> 'v) list) list"

definition getKey :: "'v spatial_hash \<Rightarrow> int \<Rightarrow> int \<Rightarrow> int \<times> int" where
  "getKey h x y = (x div cellSize h, y div cellSize h)"

fun pushCell :: "(int \<times> int) \<Rightarrow> ((int \<times> int) \<times> 'v) \<Rightarrow>
    ((int \<times> int) \<times> ((int \<times> int) \<times> 'v) list) list \<Rightarrow>
    ((int \<times> int) \<times> ((int \<times> int) \<times> 'v) list) list" where
  "pushCell k e [] = [(k, [e])]"
| "pushCell k e ((k', es) # cs) =
     (if k' = k then (k', es @ [e]) # cs else (k', es) # pushCell k e cs)"

definition hashAdd :: "'v spatial_hash \<Rightarrow> int \<Rightarrow> int \<Rightarrow> 'v \<Rightarrow> 'v spatial_hash" where
  "hashAdd h x y v = h\<lparr>cells := pushCell (getKey h x y) ((x, y), v) (cells h)\<rparr>"

definition hashClear :: "'v spatial_hash \<Rightarrow> 'v spatial_hash" where
  "hashClear h = h\<lparr>cells := []\<rparr>"

definition newSpatialHash :: "int \<Rightarrow> 'v spatial_hash" where
  "newSpatialHash c = \<lparr> cellSize = c, cells = [] \<rparr>"

section \<open>ParkAnalyzer: the incremental scan of the map\<close>

text \<open>
  The fields of the \<open>ParkAnalyzer\<close> object of the 3.0.0 source. \<open>tileQueries\<close> is not a
  field of the source: it logs, for every iteration of the scan loop, the linear index
  \<open>analysisProgress\<close> of the cell and the coordinates passed to \<open>map.getTile\<close>, so that
  the cells a scan visits can be stated. \<open>startAnalysis\<close> empties it.
\<close>

record park_analyzer =
  litterLocations :: "unit spatial_hash"
  vandalismLocations :: "unit spatial_hash"
  guestDensity :: "guest spatial_hash"
  pathTiles :: "(int \<times> int) list"
  rideLocations :: "((int \<times> int) \<times> nat) list"
  entranceLocations :: "(int \<times> int) list"
  queueLocations :: "(int \<times> int) list"
  totalPathTiles :: nat
  totalLitter :: nat
  totalVandalism :: nat
  totalRides :: nat
  totalGuests :: nat
  averageGuestHappiness :: real
  isAnalyzed :: bool
  analysisProgress :: nat
  analysisTotal :: nat
  tileQueries :: "(nat \<times> (int \<times> int) option) list"

definition ParkAnalyzer :: park_analyzer where
  "ParkAnalyzer = \<lparr> litterLocations = newSpatialHash 8, vandalismLocations = newSpatialHash 8,
     guestDensity = newSpatialHash 16, pathTiles = [], rideLocations = [],
     entranceLocations = [], queueLocations = [], totalPathTiles = 0, totalLitter = 0,
     totalVandalism = 0, totalRides = 0, totalGuests = 0, averageGuestHappiness = 0,
     isAnalyzed = False, analysisProgress = 0, analysisTotal = 0, tileQueries = [] \<rparr>"

definition startAnalysis :: "world \<Rightarrow> park_analyzer \<Rightarrow> park_analyzer" where
  "startAnalysis w pa =
     pa\<lparr> litterLocations := hashClear (litterLocations pa),
         vandalismLocations := hashClear (vandalismLocations pa),
         guestDensity := hashClear (guestDensity pa),
         pathTiles := [], rideLocations := [], entranceLocations := [], queueLocations := [],
         totalPathTiles := 0, totalLitter := 0, totalVandalism := 0,
         isAnalyzed := False, analysisProgress := 0,
         analysisTotal := (case mapSize w of None \<Rightarrow> 128 * 128 | Some (sx, sy) \<Rightarrow> sx * sy),
         tileQueries := [] \<rparr>"

text \<open>One element of a tile, as the body of the inner \<open>for\<close> loop classifies it.\<close>

definition classifyElement :: "(int \<times> int) \<Rightarrow> element \<Rightarrow> park_analyzer \<Rightarrow> park_analyzer" where
  "classifyElement c e pa =
     (if elemType e = ''footpath'' then
        (let pa1 = pa\<lparr> pathTiles := pathTiles pa @ [c], totalPathTiles := totalPathTiles pa + 1 \<rparr>
         in if isQueue e then pa1\<lparr> queueLocations := queueLocations pa1 @ [c] \<rparr> else pa1)
      else if elemType e = ''track'' \<and> rideOf e \<noteq> None then
        pa\<lparr> rideLocations := rideLocations pa @ [(c, the (rideOf e))] \<rparr>
      else if elemType e = ''entrance'' then
        pa\<lparr> entranceLocations := entranceLocations pa @ [c] \<rparr>
      else pa)"

text \<open>The inner \<open>for\<close> loop; a throwing \<open>getElement\<close> leaves the loop through the
  \<open>catch\<close> around it, keeping what was pushed so far.\<close>

fun scanElements :: "(int \<times> int) \<Rightarrow> elem_query list \<Rightarrow> park_analyzer \<Rightarrow> park_analyzer" where
  "scanElements c [] pa = pa"
| "scanElements c (ElemThrows # es) pa = pa"
| "scanElements c (ElemNull # es) pa = scanElements c es pa"
| "scanElements c (Elem e # es) pa = scanElements c es (classifyElement c e pa)"

text \<open>
  \<open>tileX = analysisProgress % mapWidth\<close> and \<open>tileY = Math.floor(analysisProgress / mapWidth)\<close>.
  For \<open>mapWidth = 0\<close> JavaScript computes no coordinates (\<open>NaN\<close>); that is \<open>None\<close> here.
  What the game answers to a query without coordinates is not modelled: the cell is
  counted and nothing is recorded for it. A scan started on a map without columns has no
  cell at all, so this case needs the map to change during the scan.
\<close>

definition tileCoords :: "nat \<Rightarrow> nat \<Rightarrow> (int \<times> int) option" where
  "tileCoords p mapWidth =
     (if mapWidth = 0 then None else Some (int (p mod mapWidth), int (p div mapWidth)))"

definition scanCell :: "world \<Rightarrow> nat \<Rightarrow> park_analyzer \<Rightarrow> park_analyzer" where
  "scanCell w mapWidth pa =
     (let c = tileCoords (analysisProgress pa) mapWidth;
          pa1 = pa\<lparr> tileQueries := tileQueries pa @ [(analysisProgress pa, c)] \<rparr>;
          pa2 = (case c of None \<Rightarrow> pa1
                 | Some (tileX, tileY) \<Rightarrow>
                     (case getTile w tileX tileY of
                        Tile es \<Rightarrow> scanElements (tileX, tileY) es pa1
                      | _ \<Rightarrow> pa1))
      in pa2\<lparr> analysisProgress := analysisProgress pa2 + 1 \<rparr>)"

text \<open>The \<open>while\<close> loop of \<open>runAnalysisStep\<close>, with its counter \<open>processed\<close>.\<close>

function analysisLoop :: "world \<Rightarrow> nat \<Rightarrow> nat \<Rightarrow> park_analyzer \<Rightarrow> park_analyzer" where
  "analysisLoop w mapWidth processed pa =
     (if analysisProgress pa < analysisTotal pa \<and> processed < 500
      then analysisLoop w mapWidth (processed + 1) (scanCell w mapWidth pa)
      else pa)"
  by pat_completeness auto
termination
  by (relation "measure (\<lambda>(w, mapWidth, processed, pa). 500 - processed)") auto

declare analysisLoop.simps [simp del]

definition updateRideStats :: "world \<Rightarrow> park_analyzer \<Rightarrow> park_analyzer" where
  "updateRideStats w pa =
     (case mapRides w of None \<Rightarrow> pa
      | Some rs \<Rightarrow>
          pa\<lparr> totalRides :=
                length (filter (\<lambda>r. case r of None \<Rightarrow> False
                                     | Some rd \<Rightarrow> classification rd = ''ride'') rs) \<rparr>)"

text \<open>\<open>runAnalysisStep\<close> returns its boolean result and the new state.\<close>

definition runAnalysisStep :: "world \<Rightarrow> park_analyzer \<Rightarrow> bool \<times> park_analyzer" where
  "runAnalysisStep w pa =
     (if isAnalyzed pa then (True, pa)
      else
        (let mapWidth = (case mapSize w of None \<Rightarrow> 128 | Some (sx, sy) \<Rightarrow> sx);
             pa1 = analysisLoop w mapWidth 0 pa
         in if analysisProgress pa1 \<ge> analysisTotal pa1
            then (True, updateRideStats w (pa1\<lparr> isAnalyzed := True \<rparr>))
            else (False, pa1)))"

section \<open>CrimeDetector\<close>

record crime_detector =
  vandalismCount :: nat
  recentCrimes :: "((int \<times> int) \<times> real) list"
  crimeHotspots :: "unit spatial_hash"
  lastCheck :: real

definition CrimeDetector :: crime_detector where
  "CrimeDetector = \<lparr> vandalismCount = 0, recentCrimes = [],
     crimeHotspots = newSpatialHash 16, lastCheck = 0 \<rparr>"

text \<open>\<open>getGameTick\<close>: \<open>try { return date.ticksElapsed || 0; } catch (e) { return 0; }\<close>\<close>

definition getGameTick :: "world \<Rightarrow> real" where
  "getGameTick w = (case ticksElapsed w of None \<Rightarrow> 0 | Some t \<Rightarrow> t)"

definition crimeCheckElement ::
    "world \<Rightarrow> (int \<times> int) \<Rightarrow> element \<Rightarrow> crime_detector \<Rightarrow> crime_detector" where
  "crimeCheckElement w c e cd =
     (if elemType e = ''footpath'' \<and> (isBroken e \<or> isBlockedByVehicle e)
      then cd\<lparr> vandalismCount := vandalismCount cd + 1,
               crimeHotspots := hashAdd (crimeHotspots cd) (fst c) (snd c) (),
               recentCrimes := recentCrimes cd @ [(c, getGameTick w)] \<rparr>
      else cd)"

fun crimeScanElements ::
    "world \<Rightarrow> (int \<times> int) \<Rightarrow> elem_query list \<Rightarrow> crime_detector \<Rightarrow> crime_detector" where
  "crimeScanElements w c [] cd = cd"
| "crimeScanElements w c (ElemThrows # es) cd = cd"
| "crimeScanElements w c (ElemNull # es) cd = crimeScanElements w c es cd"
| "crimeScanElements w c (Elem e # es) cd = crimeScanElements w c es (crimeCheckElement w c e cd)"

fun crimeScanPaths :: "world \<Rightarrow> (int \<times> int) list \<Rightarrow> crime_detector \<Rightarrow> crime_detector" where
  "crimeScanPaths w [] cd = cd"
| "crimeScanPaths w (c # cs) cd =
     crimeScanPaths w cs
       (case getTile w (fst c) (snd c) of Tile es \<Rightarrow> crimeScanElements w c es cd | _ \<Rightarrow> cd)"

text \<open>\<open>CrimeDetector.update\<close>: the sampling loop runs over the first 300 path tiles, inside
  a \<open>try\<close> that starts by reading \<open>map.size\<close>.\<close>

definition CrimeDetector_update ::
    "world \<Rightarrow> park_analyzer \<Rightarrow> crime_detector \<Rightarrow> crime_detector" where
  "CrimeDetector_update w pa cd =
     (let cd0 = cd\<lparr> vandalismCount := 0, crimeHotspots := hashClear (crimeHotspots cd),
                     recentCrimes := [] \<rparr>
      in case mapSize w of None \<Rightarrow> cd0
         | Some sz \<Rightarrow> crimeScanPaths w (take 300 (pathTiles pa)) cd0)"

definition getCrimeLevel :: "crime_detector \<Rightarrow> nat" where
  "getCrimeLevel cd = vandalismCount cd"

definition needsMoreSecurity :: "config \<Rightarrow> crime_detector \<Rightarrow> bool" where
  "needsMoreSecurity cfg cd = (real (vandalismCount cd) \<ge> securityCrimeThreshold cfg)"

section \<open>GuestFeedbackAnalyzer\<close>

record feedback_summary =
  disgust :: nat
  litter :: nat
  summaryHappiness :: int
  unhappy :: nat
  total :: nat

record guest_feedback_analyzer =
  disgustCount :: nat
  litterComplaints :: nat
  averageHappiness :: real
  happinessPercent :: int
  unhappyGuestCount :: nat
  feedbackTotalGuests :: nat
  feedbackSummary :: "feedback_summary option"

definition GuestFeedbackAnalyzer :: guest_feedback_analyzer where
  "GuestFeedbackAnalyzer = \<lparr> disgustCount = 0, litterComplaints = 0, averageHappiness = 128,
     happinessPercent = 50, unhappyGuestCount = 0, feedbackTotalGuests = 0,
     feedbackSummary = None \<rparr>"

text \<open>\<open>Math.round\<close> rounds to the nearest integer, halves upwards.\<close>

definition Math_round :: "real \<Rightarrow> int" where
  "Math_round v = \<lfloor>v + 1 / 2\<rfloor>"

text \<open>The loop over \<open>guest.thoughts\<close>.\<close>

fun scanThoughts :: "string option list \<Rightarrow> guest_feedback_analyzer \<Rightarrow> guest_feedback_analyzer" where
  "scanThoughts [] a = a"
| "scanThoughts (None # ts) a = scanThoughts ts a"
| "scanThoughts (Some thoughtType # ts) a =
     (let a1 = (if thoughtType = ''disgusting'' \<or> thoughtType = ''bad_litter'' \<or>
                   thoughtType = ''path_disgusting'' \<or> thoughtType = ''vandalism''
                then a\<lparr> disgustCount := disgustCount a + 1 \<rparr> else a);
          a2 = (if thoughtType = ''bad_litter'' \<or> thoughtType = ''litter''
                then a1\<lparr> litterComplaints := litterComplaints a1 + 1 \<rparr> else a1)
      in scanThoughts ts a2)"

text \<open>The loop over the guests, with the local variables \<open>totalHappiness\<close> and
  \<open>happyCount\<close> threaded through. The sum, the average and the percentage are rounded to
  doubles as JavaScript rounds them; a guest's happiness is a byte in the game, so these
  values stay far below the overflow to \<open>Infinity\<close>, which is left out here.\<close>

fun scanGuests :: "guest option list \<Rightarrow> guest_feedback_analyzer \<times> real \<times> nat \<Rightarrow>
    guest_feedback_analyzer \<times> real \<times> nat" where
  "scanGuests [] acc = acc"
| "scanGuests (None # gs) acc = scanGuests gs acc"
| "scanGuests (Some g # gs) (a, totalHappiness, happyCount) =
     (let (a1, totalHappiness1, happyCount1) =
            (case happiness g of
               None \<Rightarrow> (a, totalHappiness, happyCount)
             | Some h \<Rightarrow>
                 ((if h < 153 then a\<lparr> unhappyGuestCount := unhappyGuestCount a + 1 \<rparr> else a),
                  nearestDouble (totalHappiness + h), happyCount + 1));
          a2 = (case thoughts g of None \<Rightarrow> a1 | Some ts \<Rightarrow> scanThoughts ts a1);
          a3 = (case nausea g of
                  None \<Rightarrow> a2
                | Some n \<Rightarrow> if n > 150 then a2\<lparr> disgustCount := disgustCount a2 + 1 \<rparr> else a2)
      in scanGuests gs (a3, totalHappiness1, happyCount1))"

definition GuestFeedbackAnalyzer_update ::
    "world \<Rightarrow> guest_feedback_analyzer \<Rightarrow> guest_feedback_analyzer" where
  "GuestFeedbackAnalyzer_update w a =
     (let a0 = a\<lparr> disgustCount := 0, litterComplaints := 0, unhappyGuestCount := 0 \<rparr>
      in case allGuests w of
           None \<Rightarrow> a0
         | Some guests \<Rightarrow>
             (let (a1, totalHappiness, happyCount) =
                    scanGuests guests (a0\<lparr> feedbackTotalGuests := length guests \<rparr>, 0, 0);
                  a2 = (if happyCount > 0
                        then a1\<lparr> averageHappiness :=
                                   nearestDouble (totalHappiness / real happyCount),
                                 happinessPercent :=
                                   Math_round (nearestDouble (nearestDouble
                                     (nearestDouble (totalHappiness / real happyCount) / 255)
                                       * 100)) \<rparr>
                        else a1)
              in a2\<lparr> feedbackSummary :=
                       Some \<lparr> disgust = disgustCount a2, litter = litterComplaints a2,
                              summaryHappiness = happinessPercent a2,
                              unhappy = unhappyGuestCount a2,
                              total = feedbackTotalGuests a2 \<rparr> \<rparr>))"

definition needsMoreEntertainers :: "config \<Rightarrow> guest_feedback_analyzer \<Rightarrow> bool" where
  "needsMoreEntertainers cfg a = (real_of_int (happinessPercent a) < entertainerHappinessThreshold cfg)"

section \<open>DeterministicRandom\<close>

text \<open>\<open>getSeed\<close>: \<open>try { return date.ticksElapsed || 0; } catch (e) { return 0; }\<close>\<close>

definition DeterministicRandom_getSeed :: "world \<Rightarrow> jsnum" where
  "DeterministicRandom_getSeed w = (case ticksElapsed w of None \<Rightarrow> Num 0 | Some t \<Rightarrow> toNumber t)"

text \<open>\<open>random(offset)\<close>; the argument is \<open>None\<close> when the caller passes none. A numeric
  literal of the source is the double nearest to it.\<close>

definition DeterministicRandom_random :: "(real \<Rightarrow> real) \<Rightarrow> world \<Rightarrow> jsnum option \<Rightarrow> jsnum" where
  "DeterministicRandom_random mathSin w offset =
     (let seed = js_add (DeterministicRandom_getSeed w) (orZero offset);
          x = js_mul (Math_sin mathSin (js_mul seed (toNumber 12.9898))) (toNumber 43758.5453)
      in js_sub x (Math_floor x))"

definition DeterministicRandom_randomInt ::
    "(real \<Rightarrow> real) \<Rightarrow> world \<Rightarrow> jsnum \<Rightarrow> jsnum \<Rightarrow> jsnum option \<Rightarrow> jsnum" where
  "DeterministicRandom_randomInt mathSin w mn mx offset =
     js_add (Math_floor (js_mul (DeterministicRandom_random mathSin w offset)
                                (js_add (js_sub mx mn) (Num 1))))
            mn"

section \<open>ActionQueue\<close>

text \<open>
  A queued effect is \<open>{ action, args, callback }\<close>. The three argument objects the plugin
  builds are the three constructors of \<open>action_args\<close>; the closures it passes as callbacks
  are named by \<open>callback\<close>, and \<open>None\<close> is a missing callback.
\<close>

datatype action_args =
    StaffHireArgs bool nat jsnum nat
  | PatrolAreaArgs int int int int int nat
  | SetOrdersArgs "int option" nat

datatype callback = HireCallback | PatrolAreaCallback | OrdersCallback

record pending =
  action :: string
  args :: action_args
  callback :: "callback option"

record action_queue =
  queue :: "pending list"
  maxPerTick :: nat

definition ActionQueue :: action_queue where
  "ActionQueue = \<lparr> queue = [], maxPerTick = 3 \<rparr>"

definition ActionQueue_add ::
    "string \<Rightarrow> action_args \<Rightarrow> callback option \<Rightarrow> action_queue \<Rightarrow> action_queue" where
  "ActionQueue_add actionName a cb aq =
     aq\<lparr> queue := queue aq @ [\<lparr> action = actionName, args = a, callback = cb \<rparr>] \<rparr>"

text \<open>
  The \<open>while\<close> loop of \<open>process\<close>, with its counter \<open>processed\<close>. Each iteration shifts
  the first entry off the queue and hands it to \<open>context.executeAction\<close>; the third
  component is the list of the entries handed over so far, in order. An exception of the
  call is caught and ignored, so the outcome of the call does not reach the loop.
\<close>

function processLoop ::
    "nat \<Rightarrow> action_queue \<Rightarrow> pending list \<Rightarrow> action_queue \<times> pending list" where
  "processLoop processed aq dispatched =
     (case queue aq of
        [] \<Rightarrow> (aq, dispatched)
      | item # rest \<Rightarrow>
          if processed < maxPerTick aq
          then processLoop (processed + 1) (aq\<lparr> queue := rest \<rparr>) (dispatched @ [item])
          else (aq, dispatched))"
  by pat_completeness auto
termination
  by (relation "measure (\<lambda>(processed, aq, dispatched). maxPerTick aq - processed)") auto

declare processLoop.simps [simp del]

definition process :: "world \<Rightarrow> action_queue \<Rightarrow> action_queue \<times> pending list" where
  "process w aq =
     (if \<not> canModifyGameState w then (aq\<lparr> queue := [] \<rparr>, [])
      else processLoop 0 aq [])"

section \<open>StaffManager\<close>

text \<open>
  The \<open>statistics\<close> object as \<open>src/advanced-staff-ai-manager.js\<close> has it, the revision
  that defines \<open>resetStatistics\<close>. The functions of the 3.0.0 revision modelled below
  read and write only fields that both revisions have.
\<close>

record statistics =
  totalStaff :: nat
  handymenCount :: nat
  mechanicsCount :: nat
  securityCount :: nat
  entertainersCount :: nat
  staffHired :: nat
  staffFired :: nat
  ordersChanged :: nat
  patrolZonesSet :: nat
  patrolZonesFailed :: nat
  dispatchesMade :: nat
  litterCleaned :: nat
  ridesFixed :: nat
  ridesInspected :: nat
  vandalsStopped :: nat
  lastFrameTime :: real
  avgFrameTime :: real
  autoReanalyzeCount :: nat
  autoGenZonesCount :: nat

text \<open>A staff entity: its \<open>id\<close> (\<open>None\<close> when it is not a number) and its \<open>orders\<close>.\<close>

record staff =
  memberId :: "int option"
  memberOrders :: nat

record staff_manager =
  allStaff :: "staff list"
  handymen :: "staff list"
  mechanics :: "staff list"
  security :: "staff list"
  entertainers :: "staff list"
  lastStaffUpdate :: real
  lastAnalysisUpdate :: real
  lastAutoHireCheck :: real
  lastAutoReanalyze :: real
  lastAutoGenZones :: real
  tickCounter :: real
  zonesNeedRegeneration :: bool
  lastStaffCount :: nat
  statistics :: statistics

definition resetStatistics :: "staff_manager \<Rightarrow> staff_manager" where
  "resetStatistics sm =
     (let preserved_autoReanalyzeCount = autoReanalyzeCount (statistics sm);
          preserved_autoGenZonesCount = autoGenZonesCount (statistics sm)
      in sm\<lparr> statistics :=
            \<lparr> totalStaff = 0, handymenCount = 0, mechanicsCount = 0, securityCount = 0,
              entertainersCount = 0, staffHired = 0, staffFired = 0, ordersChanged = 0,
              patrolZonesSet = 0, patrolZonesFailed = 0, dispatchesMade = 0,
              litterCleaned = 0, ridesFixed = 0, ridesInspected = 0, vandalsStopped = 0,
              lastFrameTime = 0, avgFrameTime = 0,
              autoReanalyzeCount = preserved_autoReanalyzeCount,
              autoGenZonesCount = preserved_autoGenZonesCount \<rparr> \<rparr>)"

text \<open>What each callback closure does when the gateway reports \<open>result.error\<close>.\<close>

fun runCallback :: "callback \<Rightarrow> nat \<Rightarrow> staff_manager \<Rightarrow> staff_manager" where
  "runCallback HireCallback err sm =
     (if err = 0
      then sm\<lparr> statistics := (statistics sm)\<lparr> staffHired := staffHired (statistics sm) + 1 \<rparr>,
               zonesNeedRegeneration := True \<rparr>
      else sm)"
| "runCallback PatrolAreaCallback err sm =
     (if err = 0
      then sm\<lparr> statistics := (statistics sm)\<lparr> patrolZonesSet := patrolZonesSet (statistics sm) + 1 \<rparr> \<rparr>
      else sm\<lparr> statistics :=
                 (statistics sm)\<lparr> patrolZonesFailed := patrolZonesFailed (statistics sm) + 1 \<rparr> \<rparr>)"
| "runCallback OrdersCallback err sm =
     (if err = 0
      then sm\<lparr> statistics := (statistics sm)\<lparr> ordersChanged := ordersChanged (statistics sm) + 1 \<rparr> \<rparr>
      else sm)"

text \<open>\<open>StaffManager.getGameTick\<close> falls back to \<open>tickCounter\<close> when the read throws.\<close>

definition StaffManager_getGameTick :: "world \<Rightarrow> staff_manager \<Rightarrow> real" where
  "StaffManager_getGameTick w sm = (case ticksElapsed w of None \<Rightarrow> tickCounter sm | Some t \<Rightarrow> t)"

definition hireStaff ::
    "(real \<Rightarrow> real) \<Rightarrow> config \<Rightarrow> world \<Rightarrow> staff_manager \<Rightarrow> string \<Rightarrow> action_queue \<Rightarrow>
     action_queue" where
  "hireStaff mathSin cfg w sm staffType aq =
     (if \<not> canModifyGameState w then aq
      else
        (let (staffTypeNum, orders) =
               (if staffType = ''handyman'' then
                  (0,
                   (if handymanSweepEnabled cfg then 1 else 0) OR
                   (if handymanWaterEnabled cfg then 2 else 0) OR
                   (if handymanEmptyBinsEnabled cfg then 4 else 0) OR
                   (if handymanMowEnabled cfg then 8 else 0))
                else if staffType = ''mechanic'' then (1, 1 OR 2)
                else if staffType = ''security'' then (2, 0)
                else if staffType = ''entertainer'' then (3, 0)
                else (0, 0));
             entertainerType =
               (if staffType = ''entertainer''
                then DeterministicRandom_randomInt mathSin w (Num 0) (Num 6)
                       (Some (toNumber (StaffManager_getGameTick w sm)))
                else Num 0)
         in ActionQueue_add ''staffhire''
              (StaffHireArgs True staffTypeNum entertainerType orders) (Some HireCallback) aq))"

text \<open>The four hire targets of \<open>checkAutoHire\<close>, named as its local variables are. The
  product of metric and ratio is rounded to a double; its overflow to an infinity is left
  out, since the clamp gives the same target for an infinity as for any value beyond the
  bounds.\<close>

definition targetHandymen :: "config \<Rightarrow> real \<Rightarrow> real" where
  "targetHandymen cfg guestCount =
     max (handymanMinCount cfg)
         (min (handymanMaxCount cfg) (of_int \<lceil>nearestDouble (guestCount * handymanTargetRatio cfg)\<rceil>))"

definition targetMechanics :: "config \<Rightarrow> real \<Rightarrow> real" where
  "targetMechanics cfg rideCount =
     max (mechanicMinCount cfg)
         (min (mechanicMaxCount cfg) (of_int \<lceil>nearestDouble (rideCount * mechanicTargetRatio cfg)\<rceil>))"

definition targetSecurity :: "config \<Rightarrow> real \<Rightarrow> real" where
  "targetSecurity cfg guestCount =
     max (securityMinCount cfg)
         (min (securityMaxCount cfg) (of_int \<lceil>nearestDouble (guestCount * securityTargetRatio cfg)\<rceil>))"

definition targetEntertainers :: "config \<Rightarrow> real \<Rightarrow> real" where
  "targetEntertainers cfg guestCount =
     max (entertainerMinCount cfg)
         (min (entertainerMaxCount cfg) (of_int \<lceil>nearestDouble (guestCount * entertainerTargetRatio cfg)\<rceil>))"

definition checkAutoHire ::
    "(real \<Rightarrow> real) \<Rightarrow> config \<Rightarrow> world \<Rightarrow> park_analyzer \<Rightarrow> staff_manager \<Rightarrow> action_queue \<Rightarrow>
     action_queue" where
  "checkAutoHire mathSin cfg w pa sm aq =
     (if \<not> autoHireEnabled cfg then aq
      else if \<not> canModifyGameState w then aq
      else
        (case (if totalStaff (statistics sm) > 0 then Some (totalGuests pa)
               else map_option length (allGuests w)) of
           None \<Rightarrow> aq
         | Some guestCount \<Rightarrow>
             (let aq1 = (if handymanAutoHire cfg \<and>
                            real (length (handymen sm)) < targetHandymen cfg (real guestCount)
                         then hireStaff mathSin cfg w sm ''handyman'' aq else aq);
                  aq2 = (if mechanicAutoHire cfg \<and>
                            real (length (mechanics sm)) < targetMechanics cfg (real (totalRides pa))
                         then hireStaff mathSin cfg w sm ''mechanic'' aq1 else aq1);
                  aq3 = (if securityAutoHire cfg \<and>
                            real (length (security sm)) < targetSecurity cfg (real guestCount)
                         then hireStaff mathSin cfg w sm ''security'' aq2 else aq2);
                  aq4 = (if entertainerAutoHire cfg \<and>
                            real (length (entertainers sm)) < targetEntertainers cfg (real guestCount)
                         then hireStaff mathSin cfg w sm ''entertainer'' aq3 else aq3)
              in aq4)))"

text \<open>\<open>var mapWidth = 128, mapHeight = 128; try { mapWidth = map.size.x; mapHeight = map.size.y; }
  catch (e) {}\<close>\<close>

definition mapDims :: "world \<Rightarrow> int \<times> int" where
  "mapDims w = (case mapSize w of None \<Rightarrow> (128, 128) | Some (sx, sy) \<Rightarrow> (int sx, int sy))"

text \<open>\<open>setStaffPatrolArea(staffId, x1, y1, x2, y2, mode)\<close>; \<open>staffId\<close> is \<open>None\<close> when it is
  not a number.\<close>

definition setStaffPatrolArea ::
    "world \<Rightarrow> int option \<Rightarrow> real \<Rightarrow> real \<Rightarrow> real \<Rightarrow> real \<Rightarrow> nat \<Rightarrow> action_queue \<Rightarrow> action_queue" where
  "setStaffPatrolArea w staffId x1 y1 x2 y2 mode aq =
     (if \<not> canModifyGameState w then aq
      else case staffId of
        None \<Rightarrow> aq
      | Some sid \<Rightarrow>
          if sid < 0 then aq
          else
            (let (mapWidth, mapHeight) = mapDims w;
                 x1' = max 0 (min \<lfloor>x1\<rfloor> (mapWidth - 1));
                 y1' = max 0 (min \<lfloor>y1\<rfloor> (mapHeight - 1));
                 x2' = max x1' (min \<lfloor>x2\<rfloor> (mapWidth - 1));
                 y2' = max y1' (min \<lfloor>y2\<rfloor> (mapHeight - 1))
             in ActionQueue_add ''staffsetpatrolarea''
                  (PatrolAreaArgs sid (x1' * 32) (y1' * 32) (x2' * 32) (y2' * 32) mode)
                  (Some PatrolAreaCallback) aq))"

section \<open>RideTracker: the coverage box of a ride\<close>

text \<open>A JavaScript number that is an integer, \<open>Infinity\<close> or \<open>-Infinity\<close>, with
  \<open>Math.min\<close>, \<open>Math.max\<close> and the addition of an integer on it.\<close>

datatype ext = NegInfinity | Fin int | Infinity

fun Math_min :: "ext \<Rightarrow> ext \<Rightarrow> ext" where
  "Math_min NegInfinity b = NegInfinity"
| "Math_min a NegInfinity = NegInfinity"
| "Math_min Infinity b = b"
| "Math_min a Infinity = a"
| "Math_min (Fin a) (Fin b) = Fin (min a b)"

fun Math_max :: "ext \<Rightarrow> ext \<Rightarrow> ext" where
  "Math_max Infinity b = Infinity"
| "Math_max a Infinity = Infinity"
| "Math_max NegInfinity b = b"
| "Math_max a NegInfinity = a"
| "Math_max (Fin a) (Fin b) = Fin (max a b)"

fun ext_add :: "ext \<Rightarrow> int \<Rightarrow> ext" where
  "ext_add NegInfinity k = NegInfinity"
| "ext_add (Fin a) k = Fin (a + k)"
| "ext_add Infinity k = Infinity"

record coverage =
  minX :: ext
  minY :: ext
  maxX :: ext
  maxY :: ext

text \<open>The three tables of recorded points, keyed by ride id: entrances and exits are
  \<open>{x, y, z}\<close>, path points are \<open>{x, y, type}\<close>.\<close>

record ride_tracker =
  rideEntrances :: "nat \<rightharpoonup> ((int \<times> int) \<times> int) list"
  rideExits :: "nat \<rightharpoonup> ((int \<times> int) \<times> int) list"
  ridePaths :: "nat \<rightharpoonup> ((int \<times> int) \<times> string) list"

text \<open>\<open>allPoints = entrances.concat(exits).concat(paths)\<close>, each table defaulting to \<open>[]\<close>.\<close>

definition allPoints :: "ride_tracker \<Rightarrow> nat \<Rightarrow> (int \<times> int) list" where
  "allPoints tr rid =
     (let entrances = (case rideEntrances tr rid of None \<Rightarrow> [] | Some l \<Rightarrow> l);
          exits = (case rideExits tr rid of None \<Rightarrow> [] | Some l \<Rightarrow> l);
          paths = (case ridePaths tr rid of None \<Rightarrow> [] | Some l \<Rightarrow> l)
      in map fst entrances @ map fst exits @ map fst paths)"

fun coverPoints :: "(int \<times> int) list \<Rightarrow> coverage \<Rightarrow> coverage" where
  "coverPoints [] c = c"
| "coverPoints (p # ps) c =
     coverPoints ps
       \<lparr> minX = Math_min (minX c) (Fin (fst p)), minY = Math_min (minY c) (Fin (snd p)),
         maxX = Math_max (maxX c) (Fin (fst p)), maxY = Math_max (maxY c) (Fin (snd p)) \<rparr>"

definition getRideCoverage :: "ride_tracker \<Rightarrow> nat \<Rightarrow> coverage" where
  "getRideCoverage tr rid =
     (let c = coverPoints (allPoints tr rid)
                \<lparr> minX = Infinity, minY = Infinity, maxX = NegInfinity, maxY = NegInfinity \<rparr>
      in \<lparr> minX = Math_max (Fin 0) (ext_add (minX c) (- 3)),
           minY = Math_max (Fin 0) (ext_add (minY c) (- 3)),
           maxX = ext_add (maxX c) 3,
           maxY = ext_add (maxY c) 3 \<rparr>)"

section \<open>Notions used to state the properties\<close>

text \<open>The state after \<open>n\<close> calls of \<open>runAnalysisStep\<close>, the number of calls a scan of \<open>t\<close>
  cells needs, and the log entries of the cells \<open>a, \<dots>, b - 1\<close>.\<close>

definition scanSteps :: "world \<Rightarrow> nat \<Rightarrow> park_analyzer \<Rightarrow> park_analyzer" where
  "scanSteps w n pa = ((\<lambda>p. snd (runAnalysisStep w p)) ^^ n) pa"

definition stepsNeeded :: "nat \<Rightarrow> nat" where
  "stepsNeeded t = max 1 ((t + 499) div 500)"

definition cellsFrom :: "nat \<Rightarrow> nat \<Rightarrow> nat \<Rightarrow> (nat \<times> (int \<times> int) option) list" where
  "cellsFrom mw a b = map (\<lambda>p. (p, tileCoords p mw)) [a..<b]"

text \<open>A small concrete world: single player, tick 0, a map of the given size with one
  footpath element on every tile, no rides and no guests.\<close>

definition exampleWorld :: "nat \<Rightarrow> nat \<Rightarrow> world" where
  "exampleWorld sx sy =
     \<lparr> networkMode = Some ModeNone, ticksElapsed = Some 0, mapSize = Some (sx, sy),
       getTile = (\<lambda>x y. Tile [Elem \<lparr> elemType = ''footpath'', isQueue = False, isBroken = False,
                                      isBlockedByVehicle = False, rideOf = None \<rparr>]),
       mapRides = Some [], allGuests = Some [] \<rparr>"

definition noNumericHappiness :: "world \<Rightarrow> bool" where
  "noNumericHappiness w =
     (case allGuests w of
        None \<Rightarrow> True
      | Some guests \<Rightarrow>
          list_all (\<lambda>g. case g of None \<Rightarrow> True | Some gst \<Rightarrow> happiness gst = None) guests)"

definition exampleTracker :: ride_tracker where
  "exampleTracker =
     \<lparr> rideEntrances = [1 \<mapsto> [((126, 126), 0)]],
       rideExits = [1 \<mapsto> [((120, 125), 0)]],
       ridePaths = [1 \<mapsto> [((126, 125), ''path'')]] \<rparr>"

text \<open>The order of the numbers of type \<open>ext\<close>.\<close>

fun ext_le :: "ext \<Rightarrow> ext \<Rightarrow> bool" where
  "ext_le NegInfinity b = True"
| "ext_le a Infinity = True"
| "ext_le (Fin a) (Fin b) = (a \<le> b)"
| "ext_le a b = False"

text \<open>A box that is \<^emph>\<open>clamped to world bounds\<close>, in the words of the specification: it lies
  within \<open>[0, mapWidth - 1] \<times> [0, mapHeight - 1]\<close>.\<close>

definition spec_clampedToWorld :: "world \<Rightarrow> coverage \<Rightarrow> bool" where
  "spec_clampedToWorld w c =
     (ext_le (Fin 0) (minX c) \<and> ext_le (maxX c) (Fin (fst (mapDims w) - 1)) \<and>
      ext_le (Fin 0) (minY c) \<and> ext_le (maxY c) (Fin (snd (mapDims w) - 1)))"

text \<open>The initial \<open>StaffManager\<close> object.\<close>

definition StaffManager :: staff_manager where
  "StaffManager =
     \<lparr> allStaff = [], handymen = [], mechanics = [], security = [], entertainers = [],
       lastStaffUpdate = 0, lastAnalysisUpdate = 0, lastAutoHireCheck = 0,
       lastAutoReanalyze = 0, lastAutoGenZones = 0, tickCounter = 0,
       zonesNeedRegeneration = True, lastStaffCount = 0,
       statistics =
         \<lparr> totalStaff = 0, handymenCount = 0, mechanicsCount = 0, securityCount = 0,
           entertainersCount = 0, staffHired = 0, staffFired = 0, ordersChanged = 0,
           patrolZonesSet = 0, patrolZonesFailed = 0, dispatchesMade = 0,
           litterCleaned = 0, ridesFixed = 0, ridesInspected = 0, vandalsStopped = 0,
           lastFrameTime = 0, avgFrameTime = 0, autoReanalyzeCount = 0,
           autoGenZonesCount = 0 \<rparr> \<rparr>"

text \<open>The number of vandalised footpath elements that \<open>CrimeDetector.update\<close> sees on a
  tile: those before the first element whose read throws.\<close>

fun vandalisedElements :: "elem_query list \<Rightarrow> nat" where
  "vandalisedElements [] = 0"
| "vandalisedElements (ElemThrows # es) = 0"
| "vandalisedElements (ElemNull # es) = vandalisedElements es"
| "vandalisedElements (Elem e # es) =
     (if elemType e = ''footpath'' \<and> (isBroken e \<or> isBlockedByVehicle e) then 1 else 0)
     + vandalisedElements es"

definition vandalisedOnTile :: "world \<Rightarrow> (int \<times> int) \<Rightarrow> nat" where
  "vandalisedOnTile w c =
     (case getTile w (fst c) (snd c) of Tile es \<Rightarrow> vandalisedElements es | _ \<Rightarrow> 0)"


section \<open>Properties\<close>

subsection \<open>The scan\<close>

lemma classifyElement_frame:
  "analysisProgress (classifyElement c e pa) = analysisProgress pa"
  "analysisTotal (classifyElement c e pa) = analysisTotal pa"
  "isAnalyzed (classifyElement c e pa) = isAnalyzed pa"
  "tileQueries (classifyElement c e pa) = tileQueries pa"
  by (simp_all add: classifyElement_def Let_def)

lemma scanElements_frame:
  "analysisProgress (scanElements c es pa) = analysisProgress pa \<and>
   analysisTotal (scanElements c es pa) = analysisTotal pa \<and>
   isAnalyzed (scanElements c es pa) = isAnalyzed pa \<and>
   tileQueries (scanElements c es pa) = tileQueries pa"
  by (induction c es pa rule: scanElements.induct) (simp_all add: classifyElement_frame)

lemma scanCell_effect:
  "analysisProgress (scanCell w mw pa) = analysisProgress pa + 1"
  "analysisTotal (scanCell w mw pa) = analysisTotal pa"
  "isAnalyzed (scanCell w mw pa) = isAnalyzed pa"
  "tileQueries (scanCell w mw pa) =
     tileQueries pa @ [(analysisProgress pa, tileCoords (analysisProgress pa) mw)]"
  by (simp_all add: scanCell_def Let_def scanElements_frame split: option.splits tile_query.splits prod.splits)

lemma analysisLoop_effect:
  "analysisProgress (analysisLoop w mw k pa) =
     analysisProgress pa + min (analysisTotal pa - analysisProgress pa) (500 - k) \<and>
   analysisTotal (analysisLoop w mw k pa) = analysisTotal pa \<and>
   isAnalyzed (analysisLoop w mw k pa) = isAnalyzed pa \<and>
   tileQueries (analysisLoop w mw k pa) =
     tileQueries pa @ cellsFrom mw (analysisProgress pa)
       (analysisProgress pa + min (analysisTotal pa - analysisProgress pa) (500 - k))"
proof (induction w mw k pa rule: analysisLoop.induct)
  case (1 w mw k pa)
  show ?case
  proof (cases "analysisProgress pa < analysisTotal pa \<and> k < 500")
    case True
    have m: "min (analysisTotal pa - analysisProgress pa) (500 - k) =
             Suc (min (analysisTotal pa - (analysisProgress pa + 1)) (500 - (k + 1)))"
      using True by auto
    have up: "[analysisProgress pa ..< analysisProgress pa + Suc j] =
              analysisProgress pa # [analysisProgress pa + 1 ..< analysisProgress pa + 1 + j]" for j
      by (simp add: upt_rec)
    have step: "analysisLoop w mw k pa = analysisLoop w mw (k + 1) (scanCell w mw pa)"
      using True by (subst analysisLoop.simps) auto
    from True "1.IH" show ?thesis
      unfolding step
      by (simp add: scanCell_effect m cellsFrom_def upt_conv_Cons del: upt_Suc)
  next
    case False
    have stop: "analysisLoop w mw k pa = pa"
      using False by (subst analysisLoop.simps) auto
    from False show ?thesis
      unfolding stop by (auto simp: cellsFrom_def)
  qed
qed


lemma updateRideStats_frame:
  "analysisProgress (updateRideStats w pa) = analysisProgress pa"
  "analysisTotal (updateRideStats w pa) = analysisTotal pa"
  "isAnalyzed (updateRideStats w pa) = isAnalyzed pa"
  "tileQueries (updateRideStats w pa) = tileQueries pa"
  by (simp_all add: updateRideStats_def split: option.splits)

lemma stepsNeeded_le: "stepsNeeded t \<le> n \<longleftrightarrow> 0 < n \<and> t \<le> 500 * n"
  unfolding stepsNeeded_def by auto

lemma runAnalysisStep_effect:
  assumes "mapSize w = Some (W, H)" and "\<not> isAnalyzed pa"
  shows "analysisProgress (snd (runAnalysisStep w pa)) =
           analysisProgress pa + min (analysisTotal pa - analysisProgress pa) 500"
    and "analysisTotal (snd (runAnalysisStep w pa)) = analysisTotal pa"
    and "tileQueries (snd (runAnalysisStep w pa)) =
           tileQueries pa @ cellsFrom W (analysisProgress pa)
             (analysisProgress pa + min (analysisTotal pa - analysisProgress pa) 500)"
    and "isAnalyzed (snd (runAnalysisStep w pa)) \<longleftrightarrow>
           analysisTotal pa \<le> analysisProgress pa + 500"
    and "fst (runAnalysisStep w pa) = isAnalyzed (snd (runAnalysisStep w pa))"
  using assms analysisLoop_effect [of w W 0 pa]
  by (auto simp: runAnalysisStep_def Let_def updateRideStats_frame)

lemma runAnalysisStep_done:
  "isAnalyzed pa \<Longrightarrow> runAnalysisStep w pa = (True, pa)"
  by (simp add: runAnalysisStep_def)


lemma startAnalysis_effect:
  assumes "mapSize w = Some (W, H)"
  shows "analysisTotal (startAnalysis w pa) = W * H"
    and "analysisProgress (startAnalysis w pa) = 0"
    and "tileQueries (startAnalysis w pa) = []"
    and "\<not> isAnalyzed (startAnalysis w pa)"
  using assms by (simp_all add: startAnalysis_def)

lemma cellsFrom_append:
  "a \<le> b \<Longrightarrow> b \<le> c \<Longrightarrow> cellsFrom mw a b @ cellsFrom mw b c = cellsFrom mw a c"
  unfolding cellsFrom_def
  by (metis map_append upt_add_eq_append le_Suc_ex)

lemma scanSteps_Suc: "scanSteps w (Suc n) pa = snd (runAnalysisStep w (scanSteps w n pa))"
  by (simp add: scanSteps_def)

lemma scanSteps_inv:
  assumes ms: "mapSize w = Some (W, H)"
  shows "analysisTotal (scanSteps w n (startAnalysis w pa)) = W * H \<and>
         analysisProgress (scanSteps w n (startAnalysis w pa)) = min (W * H) (500 * n) \<and>
         tileQueries (scanSteps w n (startAnalysis w pa)) = cellsFrom W 0 (min (W * H) (500 * n)) \<and>
         (isAnalyzed (scanSteps w n (startAnalysis w pa)) \<longleftrightarrow> stepsNeeded (W * H) \<le> n)"
proof (induction n)
  case 0
  show ?case
    using startAnalysis_effect [OF ms, of pa]
    by (simp add: scanSteps_def cellsFrom_def stepsNeeded_def)
next
  case (Suc n)
  let ?s = "scanSteps w n (startAnalysis w pa)"
  show ?case
  proof (cases "isAnalyzed ?s")
    case True
    with Suc have "W * H \<le> 500 * n" "0 < n" by (simp_all add: stepsNeeded_le)
    then have "min (W * H) (500 * Suc n) = min (W * H) (500 * n)" by simp
    moreover have "scanSteps w (Suc n) (startAnalysis w pa) = ?s"
      using True by (simp add: scanSteps_Suc runAnalysisStep_done)
    moreover have "stepsNeeded (W * H) \<le> Suc n"
      using Suc True by simp
    ultimately show ?thesis using Suc True by simp
  next
    case False
    note eff = runAnalysisStep_effect [OF ms False]
    from Suc False have lt: "n = 0 \<or> 500 * n < W * H"
      by (auto simp: stepsNeeded_le)
    then have pr: "analysisProgress ?s = 500 * n" using Suc by auto
    have tot: "analysisTotal ?s = W * H" using Suc by simp
    have new: "analysisProgress ?s + min (analysisTotal ?s - analysisProgress ?s) 500
               = min (W * H) (500 * Suc n)"
      using lt pr tot by auto
    have q: "tileQueries ?s = cellsFrom W 0 (500 * n)" using Suc lt by auto
    have "tileQueries (scanSteps w (Suc n) (startAnalysis w pa)) =
          cellsFrom W 0 (500 * n) @ cellsFrom W (500 * n) (min (W * H) (500 * Suc n))"
      using new by (simp only: scanSteps_Suc eff(3) q pr tot)
    also have "\<dots> = cellsFrom W 0 (min (W * H) (500 * Suc n))"
      using lt by (intro cellsFrom_append) auto
    finally have tq: "tileQueries (scanSteps w (Suc n) (startAnalysis w pa)) =
          cellsFrom W 0 (min (W * H) (500 * Suc n))" .
    have an: "isAnalyzed (scanSteps w (Suc n) (startAnalysis w pa)) \<longleftrightarrow>
              stepsNeeded (W * H) \<le> Suc n"
      unfolding scanSteps_Suc eff(4) pr tot by (auto simp: stepsNeeded_le)
    show ?thesis
      using tq an eff(1,2) new tot by (simp add: scanSteps_Suc)
  qed
qed


lemma tileCoords_inj:
  assumes "0 < W" "tileCoords p W = tileCoords q W"
  shows "p = q"
proof -
  from assms have "p mod W = q mod W" "p div W = q div W"
    by (simp_all add: tileCoords_def)
  then show ?thesis by (metis div_mult_mod_eq)
qed

lemma cellsFrom_props:
  "length (cellsFrom W 0 t) = t"
  "map fst (cellsFrom W 0 t) = [0..<t]"
  by (simp_all add: cellsFrom_def comp_def)

lemma cellsFrom_coords_distinct:
  assumes "0 < W"
  shows "distinct (map snd (cellsFrom W 0 t))"
proof -
  have "inj_on (\<lambda>p. tileCoords p W) (set [0..<t])"
    using tileCoords_inj [OF assms] by (auto simp: inj_on_def)
  then show ?thesis
    by (simp add: cellsFrom_def comp_def distinct_map)
qed

text \<open>
  C3. On a map of \<open>W \<times> H\<close> tiles, starting from \<open>startAnalysis\<close>, the flag \<open>isAnalyzed\<close> is
  false before the call number \<open>stepsNeeded (W * H)\<close> of \<open>runAnalysisStep\<close> and true from it on,
  so that exactly one call sets it; a call visits at most 500 cells; and once the flag is
  set the scan has visited the linear indices \<open>0, \<dots>, W * H - 1\<close>, each once and at the
  coordinates \<open>(p mod W, p div W)\<close>, which are pairwise different.
\<close>

theorem scan_completes_once:
  assumes "mapSize w = Some (W, H)"
  shows "(\<forall>n. isAnalyzed (scanSteps w n (startAnalysis w pa)) \<longleftrightarrow> stepsNeeded (W * H) \<le> n) \<and>
         (\<exists>!k. \<not> isAnalyzed (scanSteps w k (startAnalysis w pa)) \<and>
                isAnalyzed (scanSteps w (Suc k) (startAnalysis w pa))) \<and>
         (\<forall>n. length (tileQueries (scanSteps w (Suc n) (startAnalysis w pa)))
                \<le> length (tileQueries (scanSteps w n (startAnalysis w pa))) + 500) \<and>
         (\<forall>n. stepsNeeded (W * H) \<le> n \<longrightarrow>
            tileQueries (scanSteps w n (startAnalysis w pa)) =
              map (\<lambda>p. (p, Some (int (p mod W), int (p div W)))) [0..<W * H] \<and>
            length (tileQueries (scanSteps w n (startAnalysis w pa))) = W * H \<and>
            distinct (map fst (tileQueries (scanSteps w n (startAnalysis w pa)))) \<and>
            distinct (map snd (tileQueries (scanSteps w n (startAnalysis w pa)))))"
proof -
  let ?s = "\<lambda>n. scanSteps w n (startAnalysis w pa)"
  let ?K = "stepsNeeded (W * H)"
  note inv = scanSteps_inv [OF assms, of _ pa]
  have flag: "isAnalyzed (?s n) \<longleftrightarrow> ?K \<le> n" for n
    using inv [of n] by simp
  have Kpos: "0 < ?K" by (simp add: stepsNeeded_def)
  have once: "\<exists>!k. \<not> isAnalyzed (?s k) \<and> isAnalyzed (?s (Suc k))"
  proof (rule ex1I [of _ "?K - 1"])
    show "\<not> isAnalyzed (?s (?K - 1)) \<and> isAnalyzed (?s (Suc (?K - 1)))"
      using Kpos by (simp add: flag)
  next
    fix k assume "\<not> isAnalyzed (?s k) \<and> isAnalyzed (?s (Suc k))"
    then show "k = ?K - 1" by (auto simp: flag)
  qed
  have budget: "length (tileQueries (?s (Suc n))) \<le> length (tileQueries (?s n)) + 500" for n
    using inv [of n] inv [of "Suc n"] by (simp add: cellsFrom_props)
  have final: "tileQueries (?s n) = map (\<lambda>p. (p, Some (int (p mod W), int (p div W)))) [0..<W * H] \<and>
            length (tileQueries (?s n)) = W * H \<and>
            distinct (map fst (tileQueries (?s n))) \<and>
            distinct (map snd (tileQueries (?s n)))" if "?K \<le> n" for n
  proof -
    from that have "W * H \<le> 500 * n" by (simp add: stepsNeeded_le)
    then have tq: "tileQueries (?s n) = cellsFrom W 0 (W * H)"
      using inv [of n] by (simp add: min_def)
    show ?thesis
    proof (cases "W = 0")
      case True
      then show ?thesis using tq by (simp add: cellsFrom_def)
    next
      case False
      then have "cellsFrom W 0 (W * H) = map (\<lambda>p. (p, Some (int (p mod W), int (p div W)))) [0..<W * H]"
        by (simp add: cellsFrom_def tileCoords_def)
      moreover have "distinct (map snd (cellsFrom W 0 (W * H)))"
        using False by (intro cellsFrom_coords_distinct) simp
      ultimately show ?thesis
        using tq cellsFrom_props [of W "W * H"] by simp
    qed
  qed
  show ?thesis
    using flag once budget final by blast
qed


theorem scan_completes_once_witness:
  "mapSize (exampleWorld 30 20) = Some (30, 20) \<and>
   \<not> isAnalyzed (scanSteps (exampleWorld 30 20) 1 (startAnalysis (exampleWorld 30 20) ParkAnalyzer)) \<and>
   isAnalyzed (scanSteps (exampleWorld 30 20) 2 (startAnalysis (exampleWorld 30 20) ParkAnalyzer)) \<and>
   length (tileQueries
     (scanSteps (exampleWorld 30 20) 2 (startAnalysis (exampleWorld 30 20) ParkAnalyzer))) = 600"
proof -
  have ms: "mapSize (exampleWorld 30 20) = Some (30, 20)"
    by (simp add: exampleWorld_def)
  have k: "stepsNeeded (30 * 20) = 2"
    by (simp add: stepsNeeded_def)
  show ?thesis
    using scan_completes_once [OF ms, of ParkAnalyzer] ms k by simp
qed

subsection \<open>The action queue\<close>

lemma processLoop_effect:
  "processLoop k aq d =
     (aq\<lparr> queue := drop (maxPerTick aq - k) (queue aq) \<rparr>,
      d @ take (maxPerTick aq - k) (queue aq))"
proof (induction k aq d rule: processLoop.induct)
  case (1 processed aq dispatched)
  show ?case
  proof (cases "queue aq")
    case Nil
    then show ?thesis by (subst processLoop.simps) simp
  next
    case (Cons item rest)
    show ?thesis
    proof (cases "processed < maxPerTick aq")
      case True
      then obtain m where m: "maxPerTick aq - processed = Suc m"
        by (metis Suc_diff_Suc)
      then have m': "maxPerTick aq - (processed + 1) = m" by simp
      show ?thesis
        using "1.IH" [OF Cons True] Cons True m m'
        by (subst processLoop.simps) simp
    next
      case False
      then show ?thesis using Cons by (subst processLoop.simps) simp
    qed
  qed
qed

text \<open>
  C1. One call of \<open>process\<close> hands at most \<open>maxPerTick\<close> entries to the gateway, and
  \<open>maxPerTick\<close> is 3 in the \<open>ActionQueue\<close> object and is not changed by the call. Without
  authority the call hands over nothing and leaves the queue empty; with authority it
  hands over the first \<open>maxPerTick\<close> entries in order and keeps the rest.
\<close>

theorem process_bounded:
  "length (snd (process w aq)) \<le> maxPerTick aq \<and>
   maxPerTick (fst (process w aq)) = maxPerTick aq \<and>
   maxPerTick ActionQueue = 3 \<and>
   (\<not> canModifyGameState w \<longrightarrow>
      snd (process w aq) = [] \<and> queue (fst (process w aq)) = []) \<and>
   (canModifyGameState w \<longrightarrow>
      snd (process w aq) = take (maxPerTick aq) (queue aq) \<and>
      queue (fst (process w aq)) = drop (maxPerTick aq) (queue aq))"
  by (simp add: process_def processLoop_effect ActionQueue_def)

theorem process_bounded_witness:
  "\<not> canModifyGameState ((exampleWorld 8 8)\<lparr> networkMode := Some ModeClient \<rparr>) \<and>
   snd (process ((exampleWorld 8 8)\<lparr> networkMode := Some ModeClient \<rparr>)
          (ActionQueue_add ''staffhire'' (StaffHireArgs True 2 (Num 0) 0) None ActionQueue)) = [] \<and>
   queue (fst (process ((exampleWorld 8 8)\<lparr> networkMode := Some ModeClient \<rparr>)
          (ActionQueue_add ''staffhire'' (StaffHireArgs True 2 (Num 0) 0) None ActionQueue))) = [] \<and>
   canModifyGameState (exampleWorld 8 8) \<and>
   snd (process (exampleWorld 8 8)
          (ActionQueue_add ''staffhire'' (StaffHireArgs True 2 (Num 0) 0) None ActionQueue)) =
     [\<lparr> action = ''staffhire'', args = StaffHireArgs True 2 (Num 0) 0, callback = None \<rparr>]"
proof -
  have client: "\<not> canModifyGameState ((exampleWorld 8 8)\<lparr> networkMode := Some ModeClient \<rparr>)"
    by (simp add: canModifyGameState_def isServer_def getMode_def exampleWorld_def)
  have server: "canModifyGameState (exampleWorld 8 8)"
    by (simp add: canModifyGameState_def isServer_def getMode_def exampleWorld_def)
  show ?thesis
    using client server
      process_bounded [of "(exampleWorld 8 8)\<lparr> networkMode := Some ModeClient \<rparr>"
        "ActionQueue_add ''staffhire'' (StaffHireArgs True 2 (Num 0) 0) None ActionQueue"]
      process_bounded [of "exampleWorld 8 8"
        "ActionQueue_add ''staffhire'' (StaffHireArgs True 2 (Num 0) 0) None ActionQueue"]
    by (simp add: ActionQueue_add_def ActionQueue_def)
qed

subsection \<open>Rounding to doubles\<close>

lemma roundHalfEven_of_int [simp]: "roundHalfEven (of_int k) = k"
  by (simp add: roundHalfEven_def)





lemma ulp_pos [simp]: "0 < ulp x"
  by (simp add: ulp_def)

lemma ulp_neq_0 [simp]: "ulp x \<noteq> 0"
  by (simp add: ulp_def)

lemma binade_bounds:
  assumes "x \<noteq> 0"
  shows "2 powr of_int \<lfloor>log 2 \<bar>x\<bar>\<rfloor> \<le> \<bar>x\<bar>" and "\<bar>x\<bar> < 2 powr (of_int \<lfloor>log 2 \<bar>x\<bar>\<rfloor> + 1)"
  using floor_log_eq_powr_iff [of "\<bar>x\<bar>" 2 "\<lfloor>log 2 \<bar>x\<bar>\<rfloor>"] assms by auto


lemma two_powr_int: "0 \<le> i \<Longrightarrow> 2 powr (of_int i) = (2::real) ^ nat i"
  by (simp add: powr_real_of_int)

lemma two_powr_le_power: "(2::real) powr of_int e \<le> 2 ^ n \<longleftrightarrow> e \<le> int n"
proof -
  have "(2::real) ^ n = 2 powr of_int (int n)" by (simp add: powr_realpow)
  then show ?thesis by simp (metis of_int_le_iff of_int_of_nat_eq)
qed

lemma two_power_less_powr: "(2::real) ^ n < 2 powr of_int e \<longleftrightarrow> int n < e"
proof -
  have "(2::real) ^ n = 2 powr of_int (int n)" by (simp add: powr_realpow)
  then show ?thesis by simp (metis of_int_less_iff of_int_of_nat_eq)
qed


lemma nearestDouble_exact:
  assumes "x / ulp x = of_int j"
  shows "nearestDouble x = x"
proof (cases "x = 0")
  case True
  then show ?thesis by (simp add: nearestDouble_def)
next
  case False
  have "of_int j * ulp x = x"
    using assms ulp_pos [of x] by (metis less_irrefl nonzero_divide_eq_eq)
  then show ?thesis using False assms by (simp add: nearestDouble_def)
qed

lemma nearestDouble_of_int:
  assumes "\<bar>k\<bar> \<le> 2 ^ 53"
  shows "nearestDouble (of_int k) = of_int k"
proof (cases "k = 0")
  case True
  then show ?thesis by (simp add: nearestDouble_def)
next
  case False
  define x :: real where "x = of_int k"
  define e where "e = \<lfloor>log 2 \<bar>x\<bar>\<rfloor>"
  have x0: "x \<noteq> 0" using False by (simp add: x_def)
  have a1: "1 \<le> \<bar>x\<bar>" using False unfolding x_def
    by (metis int_one_le_iff_zero_less of_int_1_le_iff of_int_abs zero_less_abs_iff)
  have a2: "\<bar>x\<bar> \<le> 2 ^ 53" using assms unfolding x_def
    by (metis of_int_abs of_int_le_iff of_int_numeral of_int_power)
  have lo: "2 powr of_int e \<le> \<bar>x\<bar>" and hi: "\<bar>x\<bar> < 2 powr (of_int e + 1)"
    using binade_bounds [OF x0] by (simp_all add: e_def)
  have "2 powr 0 < (2::real) powr (of_int e + 1)" using a1 hi by simp
  then have e0: "0 \<le> e" by (simp del: powr_zero_eq_one)
  have "(2::real) powr of_int e \<le> 2 ^ 53" using lo a2 by (rule order_trans)
  then have "e \<le> int 53" by (rule iffD1 [OF two_powr_le_power])
  then have e53: "e \<le> 53" by simp
  have be: "binadeExp x = e" using e0 by (simp add: binadeExp_def e_def)
  have u: "ulp x = 2 powr (of_int e - 52)" by (simp add: ulp_def be)
  show ?thesis
  proof (cases "e \<le> 52")
    case True
    have "1 / ulp x = 2 powr (of_int (52 - e))"
      by (simp add: u powr_diff)
    also have "\<dots> = 2 ^ nat (52 - e)" using True by (intro two_powr_int) simp
    finally have inv: "1 / ulp x = 2 ^ nat (52 - e)" .
    have "x / ulp x = x * (1 / ulp x)" by simp
    also have "\<dots> = of_int k * 2 ^ nat (52 - e)" unfolding inv by (simp add: x_def)
    also have "\<dots> = of_int (k * 2 ^ nat (52 - e))" by simp
    finally have "x / ulp x = of_int (k * 2 ^ nat (52 - e))" .
    from nearestDouble_exact [OF this] show ?thesis by (simp add: x_def)
  next
    case False
    with e53 have e: "e = 53" by simp
    have "(2::real) powr 53 \<le> \<bar>x\<bar>" using lo e by simp
    with a2 have "\<bar>x\<bar> = 2 ^ 53" by simp
    then have "x = 2 ^ 53 \<or> x = - (2 ^ 53)" by (simp add: abs_if split: if_splits)
    moreover have "ulp x = 2" using u e by simp
    ultimately have "x / ulp x = of_int (2 ^ 52) \<or> x / ulp x = of_int (- (2 ^ 52))"
      by auto
    then have "nearestDouble x = x"
      by (rule disjE) (rule nearestDouble_exact, assumption)+
    then show ?thesis by (simp add: x_def)
  qed
qed

















lemma toNumber_0 [simp]: "toNumber 0 = Num 0"
  by (simp add: toNumber_def nearestDouble_def)




lemma ulp_in_binade:
  assumes "2 powr of_int e \<le> \<bar>x\<bar>" and "\<bar>x\<bar> < 2 powr (of_int e + 1)" and "- 1022 \<le> e"
  shows "ulp x = 2 powr (of_int e - 52)"
proof -
  have "0 < \<bar>x\<bar>" using assms(1) by (smt (verit) powr_gt_zero)
  then have "\<lfloor>log 2 \<bar>x\<bar>\<rfloor> = e"
    using assms(1,2) by (subst floor_log_eq_powr_iff) simp_all
  then show ?thesis using assms(3) by (simp add: ulp_def binadeExp_def)
qed

lemma nearestDouble_numeral:
  "numeral n \<le> (2::int) ^ 53 \<Longrightarrow> nearestDouble (numeral n) = numeral n"
  using nearestDouble_of_int [of "numeral n"] by simp

lemma nearestDouble_eval:
  assumes "ulp x = u" and "x \<noteq> 0" and "roundHalfEven (x / u) = K"
  shows "nearestDouble x = of_int K * u"
  using assms by (simp add: nearestDouble_def)


subsection \<open>The deterministic random source\<close>















subsection \<open>Hire targets\<close>

text \<open>
  C5. For each of the four roles, when the configured minimum is at most the configured
  maximum, the hire target computed by \<open>checkAutoHire\<close> lies between them, for every value
  of the driver metric (in particular for every metric \<open>\<ge> 0\<close>) and every ratio.
\<close>

theorem hire_targets_clamped:
  "(handymanMinCount cfg \<le> handymanMaxCount cfg \<longrightarrow>
      handymanMinCount cfg \<le> targetHandymen cfg metric \<and>
      targetHandymen cfg metric \<le> handymanMaxCount cfg) \<and>
   (mechanicMinCount cfg \<le> mechanicMaxCount cfg \<longrightarrow>
      mechanicMinCount cfg \<le> targetMechanics cfg metric \<and>
      targetMechanics cfg metric \<le> mechanicMaxCount cfg) \<and>
   (securityMinCount cfg \<le> securityMaxCount cfg \<longrightarrow>
      securityMinCount cfg \<le> targetSecurity cfg metric \<and>
      targetSecurity cfg metric \<le> securityMaxCount cfg) \<and>
   (entertainerMinCount cfg \<le> entertainerMaxCount cfg \<longrightarrow>
      entertainerMinCount cfg \<le> targetEntertainers cfg metric \<and>
      targetEntertainers cfg metric \<le> entertainerMaxCount cfg)"
  by (simp add: targetHandymen_def targetMechanics_def targetSecurity_def targetEntertainers_def)

theorem hire_targets_clamped_witness:
  "handymanMinCount CONFIG \<le> handymanMaxCount CONFIG \<and>
   mechanicMinCount CONFIG \<le> mechanicMaxCount CONFIG \<and>
   securityMinCount CONFIG \<le> securityMaxCount CONFIG \<and>
   entertainerMinCount CONFIG \<le> entertainerMaxCount CONFIG \<and>
   2 \<le> targetHandymen CONFIG 1234 \<and> targetHandymen CONFIG 1234 \<le> 50 \<and>
   1 \<le> targetMechanics CONFIG 1234 \<and> targetMechanics CONFIG 1234 \<le> 30 \<and>
   0 \<le> targetSecurity CONFIG 1234 \<and> targetSecurity CONFIG 1234 \<le> 20 \<and>
   0 \<le> targetEntertainers CONFIG 1234 \<and> targetEntertainers CONFIG 1234 \<le> 20"
  using hire_targets_clamped [of CONFIG 1234]
  by (simp add: CONFIG_def)

subsection \<open>Patrol rectangles\<close>

text \<open>Without authority, or with a staff id that is not a number \<open>\<ge> 0\<close>, nothing is queued.\<close>

lemma setStaffPatrolArea_refused:
  "\<not> canModifyGameState w \<or> staffId = None \<or> (\<exists>sid. staffId = Some sid \<and> sid < 0) \<Longrightarrow>
   setStaffPatrolArea w staffId x1 y1 x2 y2 mode aq = aq"
  by (auto simp: setStaffPatrolArea_def split: option.splits)

text \<open>
  C4, as amended. With authority, a staff id that is a number \<open>\<ge> 0\<close>, and a map of at
  least one tile in each direction, \<open>setStaffPatrolArea\<close> appends
  exactly one \<open>staffsetpatrolarea\<close> entry to the queue, whose rectangle is 32 times a tile
  rectangle with \<open>0 \<le> x1 \<le> x2 \<le> mapWidth - 1\<close> and \<open>0 \<le> y1 \<le> y2 \<le> mapHeight - 1\<close>, for
  all real inputs \<open>x1, y1, x2, y2\<close>. \<open>mapWidth\<close> and \<open>mapHeight\<close> are the size of the map, or
  128 when the size cannot be read.
\<close>

theorem setStaffPatrolArea_clamped:
  assumes "canModifyGameState w" and "0 \<le> sid"
    and "mapDims w = (mapWidth, mapHeight)" and "1 \<le> mapWidth" and "1 \<le> mapHeight"
  shows "\<exists>tx1 ty1 tx2 ty2.
           queue (setStaffPatrolArea w (Some sid) x1 y1 x2 y2 mode aq) =
             queue aq @ [\<lparr> action = ''staffsetpatrolarea'',
                           args = PatrolAreaArgs sid (tx1 * 32) (ty1 * 32) (tx2 * 32) (ty2 * 32) mode,
                           callback = Some PatrolAreaCallback \<rparr>] \<and>
           0 \<le> tx1 \<and> tx1 \<le> tx2 \<and> tx2 \<le> mapWidth - 1 \<and>
           0 \<le> ty1 \<and> ty1 \<le> ty2 \<and> ty2 \<le> mapHeight - 1"
proof -
  let ?tx1 = "max 0 (min \<lfloor>x1\<rfloor> (mapWidth - 1))"
  let ?ty1 = "max 0 (min \<lfloor>y1\<rfloor> (mapHeight - 1))"
  let ?tx2 = "max ?tx1 (min \<lfloor>x2\<rfloor> (mapWidth - 1))"
  let ?ty2 = "max ?ty1 (min \<lfloor>y2\<rfloor> (mapHeight - 1))"
  have q: "queue (setStaffPatrolArea w (Some sid) x1 y1 x2 y2 mode aq) =
             queue aq @ [\<lparr> action = ''staffsetpatrolarea'',
                           args = PatrolAreaArgs sid (?tx1 * 32) (?ty1 * 32) (?tx2 * 32) (?ty2 * 32) mode,
                           callback = Some PatrolAreaCallback \<rparr>]"
    using assms(1,2,3) by (simp add: setStaffPatrolArea_def ActionQueue_add_def Let_def)
  have b: "0 \<le> ?tx1 \<and> ?tx1 \<le> ?tx2 \<and> ?tx2 \<le> mapWidth - 1 \<and>
           0 \<le> ?ty1 \<and> ?ty1 \<le> ?ty2 \<and> ?ty2 \<le> mapHeight - 1"
    using assms(4,5) by auto
  from q b show ?thesis by blast
qed

theorem setStaffPatrolArea_clamped_witness:
  "canModifyGameState (exampleWorld 128 64) \<and> (0::int) \<le> 7 \<and>
   mapDims (exampleWorld 128 64) = (128, 64) \<and> (1::int) \<le> 128 \<and> (1::int) \<le> 64 \<and>
   (\<exists>tx1 ty1 tx2 ty2.
      queue (setStaffPatrolArea (exampleWorld 128 64) (Some 7) (- 5.5) 70.2 500 1 0 ActionQueue) =
        queue ActionQueue @ [\<lparr> action = ''staffsetpatrolarea'',
                      args = PatrolAreaArgs 7 (tx1 * 32) (ty1 * 32) (tx2 * 32) (ty2 * 32) 0,
                      callback = Some PatrolAreaCallback \<rparr>] \<and>
      0 \<le> tx1 \<and> tx1 \<le> tx2 \<and> tx2 \<le> 128 - 1 \<and>
      0 \<le> ty1 \<and> ty1 \<le> ty2 \<and> ty2 \<le> 64 - 1)"
proof -
  have a: "canModifyGameState (exampleWorld 128 64)"
    by (simp add: canModifyGameState_def isServer_def getMode_def exampleWorld_def)
  have d: "mapDims (exampleWorld 128 64) = (128, 64)"
    by (simp add: mapDims_def exampleWorld_def)
  have s: "(0::int) \<le> 7" and w: "(1::int) \<le> 128" and h: "(1::int) \<le> 64" by simp_all
  show ?thesis
    using setStaffPatrolArea_clamped [OF a s d w h, of "- 5.5" "70.2" 500 1 0 ActionQueue] a d
    by simp
qed

text \<open>On a map of size \<open>0 \<times> 0\<close> the queued rectangle is \<open>(0, 0, 0, 0)\<close>, whose \<open>x2 = 0\<close> is
  above \<open>mapWidth - 1 = -1\<close>.\<close>

theorem setStaffPatrolArea_empty_map_counterexample:
  "canModifyGameState (exampleWorld 0 0) \<and>
   mapDims (exampleWorld 0 0) = (0, 0) \<and>
   queue (setStaffPatrolArea (exampleWorld 0 0) (Some 1) 0 0 0 0 0 ActionQueue) =
     [\<lparr> action = ''staffsetpatrolarea'', args = PatrolAreaArgs 1 (0 * 32) (0 * 32) (0 * 32) (0 * 32) 0,
        callback = Some PatrolAreaCallback \<rparr>] \<and>
   \<not> (0::int) \<le> fst (mapDims (exampleWorld 0 0)) - 1"
  by (simp add: setStaffPatrolArea_def ActionQueue_add_def ActionQueue_def mapDims_def
      canModifyGameState_def isServer_def getMode_def exampleWorld_def)

subsection \<open>Need signals\<close>

text \<open>What \<open>CrimeDetector.update\<close> leaves in \<open>vandalismCount\<close>: the number of vandalised
  footpath elements on the first 300 path tiles, or 0 when the map size cannot be read.\<close>

lemma crimeScanElements_count:
  "vandalismCount (crimeScanElements w c es cd) = vandalismCount cd + vandalisedElements es"
  by (induction w c es cd rule: crimeScanElements.induct) (simp_all add: crimeCheckElement_def)

lemma crimeScanPaths_count:
  "vandalismCount (crimeScanPaths w cs cd) =
     vandalismCount cd + sum_list (map (vandalisedOnTile w) cs)"
  by (induction w cs cd rule: crimeScanPaths.induct)
     (simp_all add: vandalisedOnTile_def crimeScanElements_count split: tile_query.splits)

lemma CrimeDetector_update_count:
  "vandalismCount (CrimeDetector_update w pa cd) =
     (case mapSize w of
        None \<Rightarrow> 0
      | Some sz \<Rightarrow> sum_list (map (vandalisedOnTile w) (take 300 (pathTiles pa))))"
  by (simp add: CrimeDetector_update_def crimeScanPaths_count split: option.splits)

text \<open>
  C7. \<open>needsMoreSecurity\<close> is true exactly when the vandalism count is at least the
  configured crime threshold; with threshold 3 it is false at count 2 and true at count 3.
\<close>

theorem needsMoreSecurity_threshold:
  "(needsMoreSecurity cfg cd \<longleftrightarrow> securityCrimeThreshold cfg \<le> real (vandalismCount cd)) \<and>
   \<not> needsMoreSecurity (cfg\<lparr> securityCrimeThreshold := 3 \<rparr>) (cd\<lparr> vandalismCount := 2 \<rparr>) \<and>
   needsMoreSecurity (cfg\<lparr> securityCrimeThreshold := 3 \<rparr>) (cd\<lparr> vandalismCount := 3 \<rparr>)"
  by (simp add: needsMoreSecurity_def)

theorem needsMoreSecurity_threshold_witness:
  "securityCrimeThreshold CONFIG = 3 \<and>
   \<not> needsMoreSecurity CONFIG (CrimeDetector\<lparr> vandalismCount := 2 \<rparr>) \<and>
   needsMoreSecurity CONFIG (CrimeDetector\<lparr> vandalismCount := 3 \<rparr>)"
  using needsMoreSecurity_threshold [of CONFIG "CrimeDetector\<lparr> vandalismCount := 2 \<rparr>"]
    needsMoreSecurity_threshold [of CONFIG "CrimeDetector\<lparr> vandalismCount := 3 \<rparr>"]
  by (simp add: CONFIG_def)

text \<open>
  C8. \<open>needsMoreEntertainers\<close> is true exactly when the happiness percentage is strictly
  below the configured threshold; with threshold 60 it is true at 40 and false at 61.
\<close>

theorem needsMoreEntertainers_threshold:
  "(needsMoreEntertainers cfg a \<longleftrightarrow>
      real_of_int (happinessPercent a) < entertainerHappinessThreshold cfg) \<and>
   needsMoreEntertainers (cfg\<lparr> entertainerHappinessThreshold := 60 \<rparr>) (a\<lparr> happinessPercent := 40 \<rparr>) \<and>
   \<not> needsMoreEntertainers (cfg\<lparr> entertainerHappinessThreshold := 60 \<rparr>) (a\<lparr> happinessPercent := 61 \<rparr>)"
  by (simp add: needsMoreEntertainers_def)

theorem needsMoreEntertainers_threshold_witness:
  "entertainerHappinessThreshold CONFIG = 60 \<and>
   needsMoreEntertainers CONFIG (GuestFeedbackAnalyzer\<lparr> happinessPercent := 40 \<rparr>) \<and>
   \<not> needsMoreEntertainers CONFIG (GuestFeedbackAnalyzer\<lparr> happinessPercent := 61 \<rparr>)"
  using needsMoreEntertainers_threshold [of CONFIG "GuestFeedbackAnalyzer\<lparr> happinessPercent := 40 \<rparr>"]
    needsMoreEntertainers_threshold [of CONFIG "GuestFeedbackAnalyzer\<lparr> happinessPercent := 61 \<rparr>"]
  by (simp add: CONFIG_def)

subsection \<open>Resetting the statistics\<close>

text \<open>
  C9. \<open>resetStatistics\<close> sets every counter and gauge of the statistics to zero, except
  \<open>autoReanalyzeCount\<close> and \<open>autoGenZonesCount\<close>, which keep their values; nothing else of
  the staff manager changes.
\<close>

theorem resetStatistics_preserves_two:
  "statistics (resetStatistics sm) =
     \<lparr> totalStaff = 0, handymenCount = 0, mechanicsCount = 0, securityCount = 0,
       entertainersCount = 0, staffHired = 0, staffFired = 0, ordersChanged = 0,
       patrolZonesSet = 0, patrolZonesFailed = 0, dispatchesMade = 0,
       litterCleaned = 0, ridesFixed = 0, ridesInspected = 0, vandalsStopped = 0,
       lastFrameTime = 0, avgFrameTime = 0,
       autoReanalyzeCount = autoReanalyzeCount (statistics sm),
       autoGenZonesCount = autoGenZonesCount (statistics sm) \<rparr> \<and>
   resetStatistics sm = sm\<lparr> statistics := statistics (resetStatistics sm) \<rparr>"
  by (simp add: resetStatistics_def Let_def)

theorem resetStatistics_preserves_two_witness:
  "staffHired (statistics (resetStatistics
     (StaffManager\<lparr> statistics := (statistics StaffManager)
        \<lparr> staffHired := 5, lastFrameTime := 1.5, autoReanalyzeCount := 2,
          autoGenZonesCount := 4 \<rparr> \<rparr>))) = 0 \<and>
   lastFrameTime (statistics (resetStatistics
     (StaffManager\<lparr> statistics := (statistics StaffManager)
        \<lparr> staffHired := 5, lastFrameTime := 1.5, autoReanalyzeCount := 2,
          autoGenZonesCount := 4 \<rparr> \<rparr>))) = 0 \<and>
   autoReanalyzeCount (statistics (resetStatistics
     (StaffManager\<lparr> statistics := (statistics StaffManager)
        \<lparr> staffHired := 5, lastFrameTime := 1.5, autoReanalyzeCount := 2,
          autoGenZonesCount := 4 \<rparr> \<rparr>))) = 2 \<and>
   autoGenZonesCount (statistics (resetStatistics
     (StaffManager\<lparr> statistics := (statistics StaffManager)
        \<lparr> staffHired := 5, lastFrameTime := 1.5, autoReanalyzeCount := 2,
          autoGenZonesCount := 4 \<rparr> \<rparr>))) = 4"
  using resetStatistics_preserves_two
    [of "StaffManager\<lparr> statistics := (statistics StaffManager)
        \<lparr> staffHired := 5, lastFrameTime := 1.5, autoReanalyzeCount := 2,
          autoGenZonesCount := 4 \<rparr> \<rparr>"]
  by simp

subsection \<open>Guest feedback without guests\<close>

lemma scanThoughts_frame:
  "averageHappiness (scanThoughts ts a) = averageHappiness a \<and>
   happinessPercent (scanThoughts ts a) = happinessPercent a"
  by (induction ts a rule: scanThoughts.induct) (simp_all add: Let_def)

lemma scanGuests_frame:
  "averageHappiness (fst (scanGuests gs acc)) = averageHappiness (fst acc) \<and>
   happinessPercent (fst (scanGuests gs acc)) = happinessPercent (fst acc)"
  by (induction gs acc rule: scanGuests.induct)
     (simp_all add: Let_def scanThoughts_frame split: option.splits)

lemma scanGuests_no_happiness:
  "list_all (\<lambda>g. case g of None \<Rightarrow> True | Some gst \<Rightarrow> happiness gst = None) gs \<Longrightarrow>
   snd (scanGuests gs (a, t, k)) = (t, k)"
  by (induction gs "(a, t, k)" arbitrary: a rule: scanGuests.induct)
     (simp_all add: Let_def split: option.splits)

lemma update_without_happiness:
  assumes "noNumericHappiness w"
  shows "averageHappiness (GuestFeedbackAnalyzer_update w a) = averageHappiness a \<and>
         happinessPercent (GuestFeedbackAnalyzer_update w a) = happinessPercent a"
proof (cases "allGuests w")
  case None
  then show ?thesis by (simp add: GuestFeedbackAnalyzer_update_def)
next
  case (Some guests)
  let ?a0 = "a\<lparr> disgustCount := 0, litterComplaints := 0, unhappyGuestCount := 0,
                 feedbackTotalGuests := length guests \<rparr>"
  obtain a1 t k where r: "scanGuests guests (?a0, 0, 0) = (a1, t, k)"
    by (cases "scanGuests guests (?a0, 0, 0)") auto
  from assms Some have "snd (scanGuests guests (?a0, 0, 0)) = (0, 0)"
    by (intro scanGuests_no_happiness) (simp add: noNumericHappiness_def)
  with r have k: "k = 0" by simp
  from scanGuests_frame [of guests "(?a0, 0, 0)"] r
  have "averageHappiness a1 = averageHappiness a" "happinessPercent a1 = happinessPercent a"
    by simp_all
  then show ?thesis
    using Some r k by (simp add: GuestFeedbackAnalyzer_update_def)
qed

lemma fold_update_without_happiness:
  "\<forall>w \<in> set ws. noNumericHappiness w \<Longrightarrow>
   averageHappiness (fold GuestFeedbackAnalyzer_update ws a) = averageHappiness a \<and>
   happinessPercent (fold GuestFeedbackAnalyzer_update ws a) = happinessPercent a"
  by (induction ws arbitrary: a) (simp_all add: update_without_happiness)

text \<open>
  C10. When the guest list is empty, cannot be read, or holds no guest with a numeric
  happiness, \<open>GuestFeedbackAnalyzer.update\<close> leaves \<open>averageHappiness\<close> and
  \<open>happinessPercent\<close> as they were. They start at 128 and 50, and the default threshold is
  60, so after any number of updates in a park that never had such a guest
  \<open>needsMoreEntertainers\<close> is true.
\<close>

theorem update_keeps_happiness_without_guests:
  "(noNumericHappiness w \<longrightarrow>
      averageHappiness (GuestFeedbackAnalyzer_update w a) = averageHappiness a \<and>
      happinessPercent (GuestFeedbackAnalyzer_update w a) = happinessPercent a) \<and>
   averageHappiness GuestFeedbackAnalyzer = 128 \<and>
   happinessPercent GuestFeedbackAnalyzer = 50 \<and>
   entertainerHappinessThreshold CONFIG = 60 \<and>
   ((\<forall>w \<in> set ws. noNumericHappiness w) \<longrightarrow>
      averageHappiness (fold GuestFeedbackAnalyzer_update ws GuestFeedbackAnalyzer) = 128 \<and>
      happinessPercent (fold GuestFeedbackAnalyzer_update ws GuestFeedbackAnalyzer) = 50 \<and>
      needsMoreEntertainers CONFIG (fold GuestFeedbackAnalyzer_update ws GuestFeedbackAnalyzer))"
proof -
  have init: "averageHappiness GuestFeedbackAnalyzer = 128" "happinessPercent GuestFeedbackAnalyzer = 50"
    by (simp_all add: GuestFeedbackAnalyzer_def)
  have thr: "entertainerHappinessThreshold CONFIG = 60" by (simp add: CONFIG_def)
  show ?thesis
    using update_without_happiness [of w a]
      fold_update_without_happiness [of ws GuestFeedbackAnalyzer] init thr
    by (simp add: needsMoreEntertainers_def)
qed

theorem update_keeps_happiness_without_guests_witness:
  "noNumericHappiness (exampleWorld 8 8) \<and>
   noNumericHappiness ((exampleWorld 8 8)\<lparr> allGuests := None \<rparr>) \<and>
   happinessPercent (GuestFeedbackAnalyzer_update (exampleWorld 8 8) GuestFeedbackAnalyzer) = 50 \<and>
   needsMoreEntertainers CONFIG
     (fold GuestFeedbackAnalyzer_update
        [exampleWorld 8 8, (exampleWorld 8 8)\<lparr> allGuests := None \<rparr>] GuestFeedbackAnalyzer)"
proof -
  have n1: "noNumericHappiness (exampleWorld 8 8)"
    by (simp add: noNumericHappiness_def exampleWorld_def)
  have n2: "\<forall>w \<in> set [exampleWorld 8 8, (exampleWorld 8 8)\<lparr> allGuests := None \<rparr>]. noNumericHappiness w"
    by (simp add: noNumericHappiness_def exampleWorld_def)
  show ?thesis
    using n1 n2
      update_keeps_happiness_without_guests [of "exampleWorld 8 8" GuestFeedbackAnalyzer
        "[exampleWorld 8 8, (exampleWorld 8 8)\<lparr> allGuests := None \<rparr>]"]
    by simp
qed

text \<open>
  Seven guests with happiness 147 and one with 144 have the average 146.625, whose
  percentage is 57.5 in exact arithmetic. In doubles \<open>146.625 / 255\<close> rounds below
  \<open>0.575\<close> and the product with 100 is below 57.5, so the percentage is 57.
\<close>

lemma percent_of_146_625:
  "Math_round (nearestDouble (nearestDouble (146.625 / 255) * 100)) = 57"
proof -
  have u1: "ulp (146.625 / 255) = 1 / 2 ^ 53"
    using ulp_in_binade [of "- 1" "146.625 / 255"] by (simp add: powr_minus_divide)
  have d: "nearestDouble (146.625 / 255) = of_int 5179139571476070 * (1 / 2 ^ 53)"
    by (rule nearestDouble_eval [OF u1]) (simp_all add: roundHalfEven_def)
  have u2: "ulp (of_int 5179139571476070 * (1 / 2 ^ 53) * 100) = 1 / 2 ^ 47"
    using ulp_in_binade [of 5 "of_int 5179139571476070 * (1 / 2 ^ 53) * 100"]
    by (simp add: powr_minus_divide)
  have "nearestDouble (of_int 5179139571476070 * (1 / 2 ^ 53) * 100) =
        of_int 8092405580431359 * (1 / 2 ^ 47)"
    by (rule nearestDouble_eval [OF u2]) (simp_all add: roundHalfEven_def)
  then have e: "nearestDouble (nearestDouble (146.625 / 255) * 100) =
        of_int 8092405580431359 * (1 / 2 ^ 47)"
    unfolding d .
  show ?thesis unfolding e by (simp add: Math_round_def)
qed


lemma update_rounds_like_doubles:
  "happinessPercent
     (GuestFeedbackAnalyzer_update
        ((exampleWorld 8 8)\<lparr> allGuests :=
           Some (replicate 7 (Some \<lparr> happiness = Some 147, nausea = None, thoughts = None \<rparr>) @
                 [Some \<lparr> happiness = Some 144, nausea = None, thoughts = None \<rparr>]) \<rparr>)
        GuestFeedbackAnalyzer) = 57"
proof -
  have avg: "nearestDouble (1173 / 8) = 146.625"
  proof -
    have u: "ulp (1173 / 8) = 1 / 2 ^ 45"
      using ulp_in_binade [of 7 "1173 / 8"] by (simp add: powr_minus_divide)
    have "nearestDouble (1173 / 8) = of_int 5158908557524992 * (1 / 2 ^ 45)"
      by (rule nearestDouble_eval [OF u]) (simp_all add: roundHalfEven_def)
    then show ?thesis by simp
  qed
  have "happinessPercent
     (GuestFeedbackAnalyzer_update
        ((exampleWorld 8 8)\<lparr> allGuests :=
           Some (replicate 7 (Some \<lparr> happiness = Some 147, nausea = None, thoughts = None \<rparr>) @
                 [Some \<lparr> happiness = Some 144, nausea = None, thoughts = None \<rparr>]) \<rparr>)
        GuestFeedbackAnalyzer) =
     Math_round (nearestDouble (nearestDouble (nearestDouble (1173 / 8) / 255) * 100))"
    by (simp add: GuestFeedbackAnalyzer_update_def GuestFeedbackAnalyzer_def exampleWorld_def
        eval_nat_numeral nearestDouble_numeral)
  then show ?thesis unfolding avg by (simp only: percent_of_146_625)
qed

subsection \<open>The coverage box of a ride\<close>

lemma Min_insert_min:
  "finite S \<Longrightarrow> Min (insert (min a x) S) = Min (insert a (insert x S))"
  by (cases "S = {}") (simp_all add: min.assoc)

lemma Max_insert_max:
  "finite S \<Longrightarrow> Max (insert (max a x) S) = Max (insert a (insert x S))"
  by (cases "S = {}") (simp_all add: max.assoc)

lemma coverPoints_finite:
  "coverPoints ps \<lparr> minX = Fin a, minY = Fin b, maxX = Fin c, maxY = Fin d \<rparr> =
     \<lparr> minX = Fin (Min (insert a (fst ` set ps))), minY = Fin (Min (insert b (snd ` set ps))),
       maxX = Fin (Max (insert c (fst ` set ps))), maxY = Fin (Max (insert d (snd ` set ps))) \<rparr>"
proof (induction ps arbitrary: a b c d)
  case Nil
  show ?case by simp
next
  case (Cons p ps)
  show ?case
    by (simp add: Cons.IH Min_insert_min Max_insert_max del: Min_insert Max_insert)
qed

text \<open>
  C6, as amended. \<open>getRideCoverage\<close> returns the bounding box of the entrance, exit and
  path points recorded for the ride, with the lower corner moved down by 3 and clamped at
  0 and the upper corner moved up by 3 and not clamped; for a ride with no recorded point
  it returns the sentinel box \<open>(Infinity, Infinity, -Infinity, -Infinity)\<close>.
\<close>

theorem getRideCoverage_box:
  "getRideCoverage tr rid =
     (if allPoints tr rid = []
      then \<lparr> minX = Infinity, minY = Infinity, maxX = NegInfinity, maxY = NegInfinity \<rparr>
      else \<lparr> minX = Fin (max 0 (Min (fst ` set (allPoints tr rid)) - 3)),
             minY = Fin (max 0 (Min (snd ` set (allPoints tr rid)) - 3)),
             maxX = Fin (Max (fst ` set (allPoints tr rid)) + 3),
             maxY = Fin (Max (snd ` set (allPoints tr rid)) + 3) \<rparr>)"
proof (cases "allPoints tr rid")
  case Nil
  then show ?thesis by (simp add: getRideCoverage_def)
next
  case (Cons p ps)
  have "coverPoints (p # ps)
          \<lparr> minX = Infinity, minY = Infinity, maxX = NegInfinity, maxY = NegInfinity \<rparr> =
        \<lparr> minX = Fin (Min (fst ` set (p # ps))), minY = Fin (Min (snd ` set (p # ps))),
          maxX = Fin (Max (fst ` set (p # ps))), maxY = Fin (Max (snd ` set (p # ps))) \<rparr>"
    by (simp add: coverPoints_finite del: Min_insert Max_insert)
  then show ?thesis
    using Cons by (simp add: getRideCoverage_def del: Min_insert Max_insert)
qed

theorem getRideCoverage_box_witness:
  "getRideCoverage exampleTracker 1 =
     \<lparr> minX = Fin 117, minY = Fin 122, maxX = Fin 129, maxY = Fin 129 \<rparr> \<and>
   getRideCoverage exampleTracker 2 =
     \<lparr> minX = Infinity, minY = Infinity, maxX = NegInfinity, maxY = NegInfinity \<rparr>"
  using getRideCoverage_box [of exampleTracker 1] getRideCoverage_box [of exampleTracker 2]
  by (simp add: exampleTracker_def allPoints_def)

text \<open>Ride 1 of \<open>exampleTracker\<close> has recorded points, and its box reaches \<open>x = 129\<close> on a
  map whose last column is 127: the box is not clamped to the world.\<close>

theorem getRideCoverage_clamped_counterexample:
  "allPoints exampleTracker 1 \<noteq> [] \<and>
   maxX (getRideCoverage exampleTracker 1) = Fin 129 \<and>
   mapDims (exampleWorld 128 128) = (128, 128) \<and>
   \<not> spec_clampedToWorld (exampleWorld 128 128) (getRideCoverage exampleTracker 1)"
  by (simp add: getRideCoverage_def exampleTracker_def allPoints_def mapDims_def
      exampleWorld_def spec_clampedToWorld_def)

end
